theory Spec2Isabelle
  imports Complex_Main "HOL-Library.Word" "HOL-Library.AList"
begin

section \<open>JavaScript strings and JSON values\<close>

text \<open>
  A JavaScript string is the list of its UTF-16 code units. \<open>js\<close> embeds an ASCII
  literal of the source.
\<close>

type_synonym jsstring = "16 word list"

definition js :: "string \<Rightarrow> jsstring" where
  "js s = map (\<lambda>c. word_of_nat (of_char c)) s"

text \<open>
  \<open>String.prototype.trim\<close> strips the code points of ECMAScript's WhiteSpace and
  LineTerminator productions from both ends; all of them are single code units.
\<close>

definition is_whitespace :: "16 word \<Rightarrow> bool" where
  "is_whitespace c \<longleftrightarrow>
     c \<in> set [0x09, 0x0A, 0x0B, 0x0C, 0x0D, 0x20, 0xA0, 0x1680, 0x2028, 0x2029,
               0x202F, 0x205F, 0x3000, 0xFEFF]
     \<or> (0x2000 \<le> c \<and> c \<le> 0x200A)"

definition trim :: "jsstring \<Rightarrow> jsstring" where
  "trim s = rev (dropWhile is_whitespace (rev (dropWhile is_whitespace s)))"

text \<open>Decimal rendering of a non-negative integer, as in a template literal.\<close>

fun digits :: "nat \<Rightarrow> jsstring" where
  "digits n =
     (if n < 10 then [word_of_nat (48 + n)]
      else digits (n div 10) @ [word_of_nat (48 + n mod 10)])"

declare digits.simps [simp del]

text \<open>
  A value produced by \<open>JSON.parse\<close>. A number is identified by its rendering
  \<open>Number.prototype.toString\<close>, which determines a double up to the sign of zero; the
  program only tests numbers for truthiness and appends them to strings. An object is
  the list of its members in source order; on a repeated key the last member wins.
  \<open>undefined\<close> is \<open>None\<close> of \<open>json option\<close>.
\<close>

datatype json =
    JNull
  | JBool bool
  | JNumber jsstring
  | JString jsstring
  | JArray "json list"
  | JObject "(jsstring \<times> json) list"

fun truthy :: "json option \<Rightarrow> bool" where
  "truthy None = False"
| "truthy (Some JNull) = False"
| "truthy (Some (JBool b)) = b"
| "truthy (Some (JNumber n)) = (n \<noteq> js ''0'' \<and> n \<noteq> js ''NaN'')"
| "truthy (Some (JString s)) = (s \<noteq> [])"
| "truthy (Some (JArray xs)) = True"
| "truthy (Some (JObject kvs)) = True"

text \<open>\<open>a || b\<close>\<close>

definition js_or :: "json option \<Rightarrow> json option \<Rightarrow> json option" where
  "js_or a b = (if truthy a then a else b)"

text \<open>\<open>a || ''\<close>, which is never \<open>undefined\<close>\<close>

definition or_empty :: "json option \<Rightarrow> json" where
  "or_empty a = (case a of None \<Rightarrow> JString [] | Some v \<Rightarrow> if truthy a then v else JString [])"

text \<open>
  \<open>v.name\<close> on a value that is neither \<open>null\<close> nor \<open>undefined\<close>, for a \<open>name\<close> that
  is not an array index and not a property of a prototype (\<open>content\<close>, \<open>choices\<close>,
  \<open>delta\<close>, \<open>message\<close>): only an object can have it.
\<close>

fun get_property :: "json \<Rightarrow> jsstring \<Rightarrow> json option" where
  "get_property (JObject kvs) k = map_of (rev kvs) k"
| "get_property v k = None"

text \<open>\<open>v[0]\<close> on a value that is neither \<open>null\<close> nor \<open>undefined\<close>\<close>

fun get_index0 :: "json \<Rightarrow> json option" where
  "get_index0 (JArray xs) = (case xs of [] \<Rightarrow> None | x # r \<Rightarrow> Some x)"
| "get_index0 (JObject kvs) = map_of (rev kvs) (js ''0'')"
| "get_index0 (JString s) = (case s of [] \<Rightarrow> None | c # r \<Rightarrow> Some (JString [c]))"
| "get_index0 v = None"

text \<open>One link \<open>v?.f\<close> of an optional chain: \<open>undefined\<close> when \<open>v\<close> is nullish.\<close>

definition opt_chain :: "json option \<Rightarrow> (json \<Rightarrow> json option) \<Rightarrow> json option" where
  "opt_chain v f = (case v of None \<Rightarrow> None | Some JNull \<Rightarrow> None | Some x \<Rightarrow> f x)"

fun join_comma :: "jsstring list \<Rightarrow> jsstring" where
  "join_comma [] = []"
| "join_comma [s] = s"
| "join_comma (s # t # r) = s @ js '','' @ join_comma (t # r)"

text \<open>
  The string that \<open>s += v\<close> appends, or \<open>None\<close> when the conversion throws a
  \<open>TypeError\<close>. Strings are taken as they are. An object without a member named
  \<open>toString\<close> gives \<open>[object Object]\<close> through \<open>Object.prototype.toString\<close>; a
  member of that name in a parsed value is not callable and hides the inherited method,
  and since the inherited \<open>valueOf\<close> returns the object itself no primitive value is
  found. An array is converted by \<open>Array.prototype.join\<close>, which converts the elements
  in the same way, a \<open>null\<close> element giving the empty string.
\<close>

fun ToString :: "json \<Rightarrow> jsstring option" where
  "ToString JNull = Some (js ''null'')"
| "ToString (JBool b) = Some (if b then js ''true'' else js ''false'')"
| "ToString (JNumber n) = Some n"
| "ToString (JString s) = Some s"
| "ToString (JArray xs) =
     map_option join_comma
       (those (map (\<lambda>x. case x of JNull \<Rightarrow> Some [] | _ \<Rightarrow> ToString x) xs))"
| "ToString (JObject kvs) =
     (if js ''toString'' \<in> fst ` set kvs then None else Some (js ''[object Object]''))"

text \<open>
  A thrown value: every exception of this program is an \<open>Error\<close> instance (a
  \<open>DOMException\<close> is one), read through its \<open>name\<close> and \<open>message\<close>.
\<close>

record js_error =
  name_e :: jsstring
  message_e :: jsstring

definition new_Error :: "jsstring \<Rightarrow> js_error" where
  "new_Error msg = \<lparr>name_e = js ''Error'', message_e = msg\<rparr>"

text \<open>How an awaited promise settles.\<close>

datatype 'a settled = Rejected js_error | Fulfilled 'a


section \<open>The chat hook \<open>useChat\<close>\<close>

datatype MessageRole = User | Assistant | System

text \<open>
  \<open>isLoading\<close> and \<open>error\<close> are optional fields (\<open>None\<close> when absent). \<open>content\<close>
  is declared a string, but the non-streaming path stores whatever the response
  carries, so it is a JavaScript value.
\<close>

record Message =
  id_m :: jsstring
  content :: json
  role :: MessageRole
  timestamp :: nat
  isLoading_m :: "bool option"
  error_m :: "jsstring option"

text \<open>
  The options of the hook. The callbacks \<open>onError\<close> and \<open>onMessageResponse\<close> are
  recorded by whether they are given; their calls appear in the effect log.
\<close>

record ChatOptions =
  apiEndpoint :: jsstring
  apiKey :: "jsstring option"
  maxMessagesToStore :: int
  onError :: bool
  onMessageResponse :: bool
  streamingEnabled :: bool

text \<open>The React state of the hook.\<close>

record chat_state =
  messages :: "Message list"
  isLoading :: bool
  error :: "jsstring option"
  currentSystemMessage :: jsstring

text \<open>
  What the \<open>addMessage\<close> callback captured from the render that created it (its
  \<open>useCallback\<close> dependencies): \<open>messages\<close> and \<open>currentSystemMessage\<close> are read
  from the closure, while \<open>setMessages\<close> with an updater function works on the
  live state.
\<close>

record closure =
  c_messages :: "Message list"
  c_currentSystemMessage :: jsstring

text \<open>
  A decoded chunk of the response body, with what \<open>JSON.parse\<close> makes of it
  (\<open>None\<close>: it throws a \<open>SyntaxError\<close>).
\<close>

record chunk =
  decoded :: jsstring
  JSON_parse :: "json option"

text \<open>
  The body stream as the reader delivers it: the chunks read, then either
  \<open>done\<close> (\<open>failure = None\<close>) or a rejected \<open>read()\<close>. A stream that never ends is
  not a value of this type; on it the loop of the source does not return.
\<close>

record body_stream =
  chunks :: "chunk list"
  failure :: "js_error option"

record Response =
  ok :: bool
  status :: nat
  body :: "body_stream option"
  json_body :: "json settled"

text \<open>
  The controller that \<open>addMessage\<close> creates for its request and stores in
  \<open>abortControllerRef\<close>: whether its signal is aborted, and whether the ref still
  holds it. \<open>abortRequest\<close> aborts the controller of the ref and clears the ref; the
  cleanup of the effect, which runs when the component unmounts, aborts it and leaves
  the ref as it is.
\<close>

record AbortController =
  aborted :: bool
  in_ref :: bool

definition new_AbortController :: AbortController where
  "new_AbortController = \<lparr>aborted = False, in_ref = True\<rparr>"

definition abortRequest :: "AbortController \<Rightarrow> AbortController" where
  "abortRequest a = (if in_ref a then a\<lparr>aborted := True, in_ref := False\<rparr> else a)"

definition unmount_cleanup :: "AbortController \<Rightarrow> AbortController" where
  "unmount_cleanup a = (if in_ref a then a\<lparr>aborted := True\<rparr> else a)"

text \<open>
  What can interrupt a pending request, and when: while \<open>fetch\<close> is awaited, or
  after the response has arrived, once the given number of chunks of its body has been
  read (in the non-streaming path: while \<open>response.json()\<close> is awaited).
\<close>

datatype abort_cause = ByAbortRequest | ByUnmount

datatype abort_point = BeforeResponse | AfterResponse nat

fun abort_by :: "abort_cause \<Rightarrow> AbortController \<Rightarrow> AbortController" where
  "abort_by ByAbortRequest a = abortRequest a"
| "abort_by ByUnmount a = unmount_cleanup a"

text \<open>
  The environment of one call of \<open>addMessage\<close>: the results of \<open>generateId()\<close> and
  \<open>Date.now()\<close> for the two messages it creates, how \<open>fetch\<close> settles when nothing
  interrupts it, the clock when the final message is built, the interruption of the
  request (if any) and the message of the \<open>AbortError\<close> of the platform.
\<close>

record chat_env =
  new_id :: jsstring
  new_time :: nat
  placeholder_id :: jsstring
  placeholder_time :: nat
  response :: "Response settled"
  final_time :: nat
  interrupt :: "(abort_cause \<times> abort_point) option"
  abort_message :: jsstring

text \<open>What the hook does to the outside: the request it sends and the callbacks it calls.\<close>

datatype effect =
    Fetch jsstring "jsstring option" "(MessageRole \<times> json) list" bool
  | OnError jsstring
  | OnMessageResponse Message

definition createMessage :: "jsstring \<Rightarrow> nat \<Rightarrow> json \<Rightarrow> MessageRole \<Rightarrow> Message" where
  "createMessage fresh_id now c r =
     \<lparr>id_m = fresh_id, content = c, role = r, timestamp = now,
      isLoading_m = None, error_m = None\<rparr>"

text \<open>The updater of the first \<open>setMessages\<close> of \<open>addMessage\<close>.\<close>

definition append_truncated :: "int \<Rightarrow> Message list \<Rightarrow> Message \<Rightarrow> Message list" where
  "append_truncated maxStore prevMessages newMessage =
     (let truncatedMessages =
        (if int (length prevMessages) \<ge> maxStore then
           (if \<exists>m \<in> set prevMessages. role m = System
            then (case prevMessages of x # y # r \<Rightarrow> x # r | _ \<Rightarrow> prevMessages)
            else drop 1 prevMessages)
         else prevMessages)
      in truncatedMessages @ [newMessage])"

text \<open>\<open>parsed.choices?.[0]?.delta?.content\<close>\<close>

definition delta_content :: "json \<Rightarrow> json option" where
  "delta_content parsed =
     opt_chain (opt_chain (opt_chain (get_property parsed (js ''choices'')) get_index0)
       (\<lambda>c. get_property c (js ''delta''))) (\<lambda>d. get_property d (js ''content''))"

text \<open>\<open>data.choices?.[0]?.message?.content\<close>\<close>

definition message_content :: "json \<Rightarrow> json option" where
  "message_content data =
     opt_chain (opt_chain (opt_chain (get_property data (js ''choices'')) get_index0)
       (\<lambda>c. get_property c (js ''message''))) (\<lambda>d. get_property d (js ''content''))"

text \<open>
  The inner \<open>try\<close> of the streaming loop: the content of one chunk. When
  \<open>JSON.parse\<close> throws, or yields \<open>null\<close> (then \<open>parsed.content\<close> throws a
  \<open>TypeError\<close>), the \<open>catch\<close> takes the chunk's text.
\<close>

definition chunk_content :: "chunk \<Rightarrow> json" where
  "chunk_content c =
     (case JSON_parse c of
        None \<Rightarrow> JString (decoded c)
      | Some JNull \<Rightarrow> JString (decoded c)
      | Some parsed \<Rightarrow>
          or_empty (js_or (get_property parsed (js ''content'')) (delta_content parsed)))"

text \<open>The updater of \<open>setMessages\<close> in both request handlers.\<close>

definition set_content :: "jsstring \<Rightarrow> json \<Rightarrow> Message list \<Rightarrow> Message list" where
  "set_content assistantId c prevMessages =
     map (\<lambda>m. if id_m m = assistantId then m\<lparr>content := c, isLoading_m := Some False\<rparr> else m)
       prevMessages"

text \<open>
  The \<open>while (true)\<close> loop over \<open>reader.read()\<close>, for the chunks that arrive:
  \<open>accumulatedContent\<close> and the message list after them. When the content of a
  chunk has no primitive value, \<open>accumulatedContent += content\<close> throws a \<open>TypeError\<close>
  that the \<open>catch\<close> around the chunk logs: nothing is accumulated and \<open>setMessages\<close>
  is not called for that chunk.
\<close>

fun read_loop :: "jsstring \<Rightarrow> chunk list \<Rightarrow> jsstring \<Rightarrow> Message list \<Rightarrow> jsstring \<times> Message list" where
  "read_loop assistantId [] accumulatedContent ms = (accumulatedContent, ms)"
| "read_loop assistantId (c # cs) accumulatedContent ms =
     (case ToString (chunk_content c) of
        None \<Rightarrow> read_loop assistantId cs accumulatedContent ms
      | Some t \<Rightarrow>
          (let acc = accumulatedContent @ t
           in read_loop assistantId cs acc (set_content assistantId (JString acc) ms)))"

text \<open>
  The \<open>DOMException\<close> with which the platform rejects what is awaited on an aborted
  request.
\<close>

definition abort_error :: "chat_env \<Rightarrow> js_error" where
  "abort_error env = \<lparr>name_e = js ''AbortError'', message_e = abort_message env\<rparr>"

text \<open>
  The interruption that reaches the request: the signal must be aborted, and the
  request must still be pending at that point. After a response that is not \<open>ok\<close>, or
  has no body in the streaming path, the handler has thrown already; a body cannot be
  interrupted after more chunks than it delivers.
\<close>

definition interruption :: "ChatOptions \<Rightarrow> chat_env \<Rightarrow> (abort_cause \<times> abort_point) option" where
  "interruption opts env =
     (case interrupt env of
        None \<Rightarrow> None
      | Some (cause, point) \<Rightarrow>
          if \<not> aborted (abort_by cause new_AbortController) then None
          else
            (case point of
               BeforeResponse \<Rightarrow> Some (cause, point)
             | AfterResponse k \<Rightarrow>
                 (case response env of
                    Rejected e \<Rightarrow> None
                  | Fulfilled r \<Rightarrow>
                      if \<not> ok r then None
                      else if streamingEnabled opts then
                        (case body r of
                           None \<Rightarrow> None
                         | Some stream \<Rightarrow>
                             if k \<le> length (chunks stream) then Some (cause, point) else None)
                      else Some (cause, point))))"

text \<open>
  How \<open>fetch\<close> settles for the handler. An interruption before the response rejects
  \<open>fetch\<close>; one after it lets the body deliver the chunks read so far and then
  rejects \<open>read()\<close>, and rejects \<open>response.json()\<close>.
\<close>

definition settled_response :: "ChatOptions \<Rightarrow> chat_env \<Rightarrow> Response settled" where
  "settled_response opts env =
     (case interruption opts env of
        None \<Rightarrow> response env
      | Some (cause, point) \<Rightarrow>
          (case point of
             BeforeResponse \<Rightarrow> Rejected (abort_error env)
           | AfterResponse k \<Rightarrow>
               (case response env of
                  Rejected e \<Rightarrow> Rejected e
                | Fulfilled r \<Rightarrow>
                    Fulfilled
                      (r\<lparr>body :=
                           map_option
                             (\<lambda>stream. \<lparr>chunks = take k (chunks stream),
                                        failure = Some (abort_error env)\<rparr>)
                             (body r),
                         json_body := Rejected (abort_error env)\<rparr>))))"

text \<open>
  Whether the component unmounts while the request is pending. React discards the
  state updates of an unmounted component, so the state of the hook is then the one it
  had at that point.
\<close>

definition unmounted :: "ChatOptions \<Rightarrow> chat_env \<Rightarrow> bool" where
  "unmounted opts env =
     (case interruption opts env of
        None \<Rightarrow> False
      | Some (cause, point) \<Rightarrow> cause = ByUnmount)"

definition authorization :: "ChatOptions \<Rightarrow> jsstring option" where
  "authorization opts =
     (case apiKey opts of
        None \<Rightarrow> None
      | Some k \<Rightarrow> if k = [] then None else Some (js ''Bearer '' @ k))"

text \<open>
  Each handler returns the exception it throws (if any), the state and the effects.
\<close>

definition handleStreamingRequest ::
  "ChatOptions \<Rightarrow> chat_env \<Rightarrow> (MessageRole \<times> json) list \<Rightarrow> jsstring \<Rightarrow> chat_state
     \<Rightarrow> js_error option \<times> chat_state \<times> effect list" where
  "handleStreamingRequest opts env apiMessages assistantId st =
     (let request = Fetch (apiEndpoint opts) (authorization opts) apiMessages True in
      case settled_response opts env of
        Rejected e \<Rightarrow> (Some e, st, [request])
      | Fulfilled r \<Rightarrow>
          if \<not> ok r then
            (Some (new_Error (js ''Server error: '' @ digits (status r))), st, [request])
          else
            (case body r of
               None \<Rightarrow> (Some (new_Error (js ''Response body is null'')), st, [request])
             | Some stream \<Rightarrow>
                 (case read_loop assistantId (chunks stream) [] (messages st) of
                    (accumulatedContent, ms) \<Rightarrow>
                      (case failure stream of
                         None \<Rightarrow>
                           (None, st\<lparr>messages := ms\<rparr>,
                            request #
                              (if onMessageResponse opts then
                                 [OnMessageResponse
                                    \<lparr>id_m = assistantId, content = JString accumulatedContent,
                                     role = Assistant, timestamp = final_time env,
                                     isLoading_m = None, error_m = None\<rparr>]
                               else []))
                       | Some e \<Rightarrow>
                           (if name_e e \<noteq> js ''AbortError'' then Some e else None,
                            st\<lparr>messages := ms\<rparr>, [request])))))"

text \<open>
  In the non-streaming handler \<open>data.content\<close> on a \<open>null\<close> body throws a
  \<open>TypeError\<close> (the message is V8's).
\<close>

definition handleStandardRequest ::
  "ChatOptions \<Rightarrow> chat_env \<Rightarrow> (MessageRole \<times> json) list \<Rightarrow> jsstring \<Rightarrow> chat_state
     \<Rightarrow> js_error option \<times> chat_state \<times> effect list" where
  "handleStandardRequest opts env apiMessages assistantId st =
     (let request = Fetch (apiEndpoint opts) (authorization opts) apiMessages False in
      case settled_response opts env of
        Rejected e \<Rightarrow> (Some e, st, [request])
      | Fulfilled r \<Rightarrow>
          if \<not> ok r then
            (Some (new_Error (js ''Server error: '' @ digits (status r))), st, [request])
          else
            (case json_body r of
               Rejected e \<Rightarrow> (Some e, st, [request])
             | Fulfilled JNull \<Rightarrow>
                 (Some \<lparr>name_e = js ''TypeError'',
                        message_e = js ''Cannot read properties of null (reading 'content')''\<rparr>,
                  st, [request])
             | Fulfilled data \<Rightarrow>
                 (let c = or_empty (js_or (get_property data (js ''content''))
                                          (message_content data))
                  in (None, st\<lparr>messages := set_content assistantId c (messages st)\<rparr>,
                      request #
                        (if onMessageResponse opts then
                           [OnMessageResponse
                              \<lparr>id_m = assistantId, content = c, role = Assistant,
                               timestamp = final_time env, isLoading_m = None,
                               error_m = None\<rparr>]
                         else [])))))"

text \<open>The updater of \<open>setMessages\<close> in the \<open>catch\<close> of \<open>addMessage\<close>.\<close>

definition set_error :: "jsstring \<Rightarrow> jsstring \<Rightarrow> Message list \<Rightarrow> Message list" where
  "set_error placeholderId errorMessage prevMessages =
     map (\<lambda>m. if id_m m = placeholderId
               then m\<lparr>error_m := Some errorMessage, isLoading_m := Some False\<rparr> else m)
       prevMessages"

text \<open>
  The request messages of \<open>addMessage\<close>: the closure's \<open>messages\<close> and the new
  message, without loading assistant messages, after the system message if there is
  one. Only role and content of a message are sent, so the id and the timestamp that
  \<open>createMessage\<close> gives the system message do not appear.
\<close>

definition prepare_apiMessages :: "closure \<Rightarrow> Message \<Rightarrow> (MessageRole \<times> json) list" where
  "prepare_apiMessages cl newMessage =
     (let messagesToSend =
            filter (\<lambda>m. role m \<noteq> Assistant \<or> isLoading_m m \<noteq> Some True)
              (c_messages cl @ [newMessage])
      in (if c_currentSystemMessage cl \<noteq> []
          then [(System, JString (c_currentSystemMessage cl))] else [])
         @ map (\<lambda>m. (role m, content m)) messagesToSend)"

definition addMessage ::
  "ChatOptions \<Rightarrow> closure \<Rightarrow> chat_env \<Rightarrow> jsstring \<Rightarrow> MessageRole \<Rightarrow> chat_state
     \<Rightarrow> chat_state \<times> effect list" where
  "addMessage opts cl env text_arg role_arg st =
     (if trim text_arg = [] then (st, [])
      else
        let newMessage = createMessage (new_id env) (new_time env) (JString text_arg) role_arg;
            st1 = st\<lparr>messages :=
                      append_truncated (maxMessagesToStore opts) (messages st) newMessage\<rparr>
        in
          if role_arg \<noteq> User then (st1, [])
          else
            let assistantPlaceholder =
                  (createMessage (placeholder_id env) (placeholder_time env) (JString []) Assistant)
                    \<lparr>isLoading_m := Some True\<rparr>;
                st2 = st1\<lparr>messages := messages st1 @ [assistantPlaceholder],
                          isLoading := True, error := None\<rparr>;
                apiMessages = prepare_apiMessages cl newMessage
            in
              (case (if streamingEnabled opts
                     then handleStreamingRequest opts env apiMessages
                            (id_m assistantPlaceholder) st2
                     else handleStandardRequest opts env apiMessages
                            (id_m assistantPlaceholder) st2)
               of
                 (None, st3, effects) \<Rightarrow>
                   (if unmounted opts env then st3 else st3\<lparr>isLoading := False\<rparr>, effects)
               | (Some e, st3, effects) \<Rightarrow>
                   (let errorMessage =
                          (if name_e e = js ''AbortError'' then js ''Request was cancelled''
                           else message_e e)
                    in (if unmounted opts env then st3
                        else st3\<lparr>messages :=
                                   set_error (id_m assistantPlaceholder) errorMessage
                                     (messages st3),
                                 error := Some errorMessage, isLoading := False\<rparr>,
                        effects @ (if onError opts then [OnError errorMessage] else [])))))"

text \<open>
  The text one chunk adds to \<open>accumulatedContent\<close> (\<open>None\<close>: the chunk is skipped),
  and the text of the chunks of a stream.
\<close>

definition chunk_text :: "chunk \<Rightarrow> jsstring option" where
  "chunk_text c = ToString (chunk_content c)"

definition stream_text :: "chunk list \<Rightarrow> jsstring" where
  "stream_text cs = concat (List.map_filter chunk_text cs)"

text \<open>
  The callback calls among the effects.
\<close>

definition callbacks :: "effect list \<Rightarrow> effect list" where
  "callbacks effects = filter (\<lambda>e. case e of Fetch u a m s \<Rightarrow> False | _ \<Rightarrow> True) effects"

text \<open>
  The content of a chunk in the words of claim C1: \<open>parsed.content\<close> if the chunk
  parses as JSON and has a content field, else \<open>parsed.choices[0].delta.content\<close> if
  present, else the raw decoded chunk text.
\<close>

definition claimed_chunk_text :: "chunk \<Rightarrow> jsstring option" where
  "claimed_chunk_text c =
     (case JSON_parse c of
        None \<Rightarrow> Some (decoded c)
      | Some parsed \<Rightarrow>
          (case get_property parsed (js ''content'') of
             Some v \<Rightarrow> ToString v
           | None \<Rightarrow>
               (case delta_content parsed of
                  Some v \<Rightarrow> ToString v
                | None \<Rightarrow> Some (decoded c))))"

definition claimed_stream_text :: "chunk list \<Rightarrow> jsstring option" where
  "claimed_stream_text cs = map_option concat (those (map claimed_chunk_text cs))"

text \<open>
  A hook with its default options and both callbacks, before the first message; two
  chunks of an OpenAI stream with what \<open>JSON.parse\<close> returns for them, a chunk
  of plain text, and a chunk whose content is an object with a member named
  \<open>toString\<close>.
\<close>

definition demo_options :: ChatOptions where
  "demo_options =
     \<lparr>apiEndpoint = js ''/api/chat'', apiKey = None, maxMessagesToStore = 100,
      onError = True, onMessageResponse = True, streamingEnabled = True\<rparr>"

definition demo_state :: chat_state where
  "demo_state = \<lparr>messages = [], isLoading = False, error = None, currentSystemMessage = []\<rparr>"

definition demo_closure :: closure where
  "demo_closure = \<lparr>c_messages = [], c_currentSystemMessage = []\<rparr>"

definition role_chunk :: chunk where
  \<open>role_chunk =
     \<lparr>decoded = js ''{"choices":[{"delta":{"role":"assistant"}}]}'',
      JSON_parse = Some (JObject [(js ''choices'',
        JArray [JObject [(js ''delta'', JObject [(js ''role'', JString (js ''assistant''))])]])])\<rparr>\<close>

definition delta_chunk :: chunk where
  \<open>delta_chunk =
     \<lparr>decoded = js ''{"choices":[{"delta":{"content":"Hi"}}]}'',
      JSON_parse = Some (JObject [(js ''choices'',
        JArray [JObject [(js ''delta'', JObject [(js ''content'', JString (js ''Hi''))])]])])\<rparr>\<close>

definition plain_chunk :: chunk where
  "plain_chunk = \<lparr>decoded = js '' there'', JSON_parse = None\<rparr>"

definition object_chunk :: chunk where
  \<open>object_chunk =
     \<lparr>decoded = js ''{"content":{"toString":1}}'',
      JSON_parse = Some (JObject [(js ''content'',
        JObject [(js ''toString'', JNumber (js ''1''))])])\<rparr>\<close>

definition demo_env :: "Response settled \<Rightarrow> chat_env" where
  "demo_env r =
     \<lparr>new_id = js ''m1'', new_time = 1000, placeholder_id = js ''m2'', placeholder_time = 1000,
      response = r, final_time = 2000, interrupt = None,
      abort_message = js ''The user aborted a request.''\<rparr>"

text \<open>
  A response with status 200 whose body delivers the chunks \<open>cs\<close> and then ends, or
  fails with \<open>f\<close>.
\<close>

definition streamed :: "chunk list \<Rightarrow> js_error option \<Rightarrow> Response" where
  "streamed cs f =
     \<lparr>ok = True, status = 200, body = Some \<lparr>chunks = cs, failure = f\<rparr>,
      json_body = Rejected \<lparr>name_e = js ''TypeError'', message_e = js ''body stream is locked''\<rparr>\<rparr>"

text \<open>
  A request that would have received a content delta and a plain-text chunk, and is
  interrupted.
\<close>

definition interrupted_env :: "abort_cause \<Rightarrow> abort_point \<Rightarrow> chat_env" where
  "interrupted_env cause point =
     (demo_env (Fulfilled (streamed [delta_chunk, plain_chunk] None)))
       \<lparr>interrupt := Some (cause, point)\<rparr>"

definition AbortError :: js_error where
  "AbortError = \<lparr>name_e = js ''AbortError'', message_e = js ''The user aborted a request.''\<rparr>"

text \<open>
  The placeholder of the assistant, the message list once it is appended, and the
  message handed to \<open>onMessageResponse\<close>.
\<close>

definition placeholder :: "chat_env \<Rightarrow> Message" where
  "placeholder env =
     \<lparr>id_m = placeholder_id env, content = JString [], role = Assistant,
      timestamp = placeholder_time env, isLoading_m = Some True, error_m = None\<rparr>"

definition pending_messages :: "ChatOptions \<Rightarrow> chat_env \<Rightarrow> jsstring \<Rightarrow> chat_state \<Rightarrow> Message list" where
  "pending_messages opts env text_arg st =
     append_truncated (maxMessagesToStore opts) (messages st)
       (createMessage (new_id env) (new_time env) (JString text_arg) User) @ [placeholder env]"

definition final_message :: "chat_env \<Rightarrow> json \<Rightarrow> Message" where
  "final_message env c =
     \<lparr>id_m = placeholder_id env, content = c, role = Assistant,
      timestamp = final_time env, isLoading_m = None, error_m = None\<rparr>"

text \<open>
  The outcome of \<open>addMessage\<close> that claim C7 describes: \<open>onError\<close>, when given, is
  called once with \<open>Request was cancelled\<close>, the error state is that message,
  \<open>isLoading\<close> is false, and the placeholder of the assistant, the last message,
  carries the error with \<open>isLoading\<close> false. When the component is gone the callback is
  called all the same, and the state is as the request left it: no error, and the
  placeholder loading.
\<close>

definition cancellation_surfaced ::
  "ChatOptions \<Rightarrow> chat_env \<Rightarrow> bool \<Rightarrow> chat_state \<times> effect list \<Rightarrow> bool" where
  "cancellation_surfaced opts env gone result =
     (case result of
        (st', effects) \<Rightarrow>
          callbacks effects =
            (if onError opts then [OnError (js ''Request was cancelled'')] else []) \<and>
          messages st' \<noteq> [] \<and>
          id_m (last (messages st')) = placeholder_id env \<and>
          role (last (messages st')) = Assistant \<and>
          (if gone
           then error st' = None \<and> isLoading st' \<and>
                error_m (last (messages st')) = None \<and>
                isLoading_m (last (messages st')) = Some True
           else error st' = Some (js ''Request was cancelled'') \<and> \<not> isLoading st' \<and>
                error_m (last (messages st')) = Some (js ''Request was cancelled'') \<and>
                isLoading_m (last (messages st')) = Some False))"

text \<open>
  The outcome in which the cancellation leaves no trace: no callback is called, no
  error is set, and the placeholder has no error and the text of the chunks \<open>cs\<close> as
  its content; it is still loading if none of them has given a text. \<open>isLoading\<close>
  is false unless the component is gone.
\<close>

definition cancellation_swallowed ::
  "chat_env \<Rightarrow> chunk list \<Rightarrow> bool \<Rightarrow> chat_state \<times> effect list \<Rightarrow> bool" where
  "cancellation_swallowed env cs gone result =
     (case result of
        (st', effects) \<Rightarrow>
          callbacks effects = [] \<and>
          error st' = None \<and>
          (isLoading st' \<longleftrightarrow> gone) \<and>
          messages st' \<noteq> [] \<and>
          id_m (last (messages st')) = placeholder_id env \<and>
          role (last (messages st')) = Assistant \<and>
          error_m (last (messages st')) = None \<and>
          content (last (messages st')) = JString (concat (List.map_filter chunk_text cs)) \<and>
          isLoading_m (last (messages st')) = Some (\<forall>c \<in> set cs. chunk_text c = None))"

section \<open>The Firestore module\<close>

text \<open>
  A document is a finite map from field names to values; a collection lists its
  documents by document id. \<open>{...a, ...b}\<close> is \<open>a ++ b\<close>, and a key of an object is a
  field the map defines.
\<close>

datatype fval =
    FNull
  | FBool bool
  | FNumber rat
  | FString jsstring
  | FTimestamp nat
  | FArray "fval list"
  | FMap "(jsstring \<times> fval) list"

type_synonym document = "jsstring \<Rightarrow> fval option"

datatype collection_name = USERS_COLLECTION | TALK_HISTORY_COLLECTION

record firestore =
  users :: "(jsstring \<times> document) list"
  talk_history :: "(jsstring \<times> document) list"

text \<open>The calls the module makes on the SDK, by the document or collection they address.\<close>

datatype firestore_call =
    GetDoc collection_name jsstring
  | SetDoc collection_name jsstring
  | DeleteDoc collection_name jsstring
  | GetDocs collection_name

text \<open>
  The environment of a call: which SDK calls reject (and with what), the id
  \<open>doc(collection(...))\<close> generates, the two readings of \<open>Timestamp.now()\<close> in
  \<open>saveUserSettings\<close>, and the order in which the server returns documents for
  \<open>orderBy('date', 'desc')\<close>. Calls run one after the other: no other client writes
  between the read and the write of one operation.
\<close>

record firestore_env =
  rejects :: "firestore_call \<Rightarrow> js_error option"
  auto_id :: jsstring
  now_updatedAt :: nat
  now_createdAt :: nat
  order_by_date_desc :: "(jsstring \<times> document) list \<Rightarrow> (jsstring \<times> document) list"

text \<open>
  Every operation returns its result (\<open>Inl\<close>: the exception it throws), the database
  afterwards and the SDK calls it issued. \<open>user\<close> is the uid of the \<open>User\<close>, or
  \<open>None\<close> for a missing user.
\<close>

definition saveUserSettings ::
  "firestore_env \<Rightarrow> jsstring option \<Rightarrow> document \<Rightarrow> firestore
     \<Rightarrow> (js_error + unit) \<times> firestore \<times> firestore_call list" where
  "saveUserSettings env user settings db =
     (case user of
        None \<Rightarrow> (Inl (new_Error (js ''No user logged in'')), db, [])
      | Some uid \<Rightarrow>
          (case rejects env (GetDoc USERS_COLLECTION uid) of
             Some e \<Rightarrow> (Inl e, db, [GetDoc USERS_COLLECTION uid])
           | None \<Rightarrow>
               (let userDoc = map_of (users db) uid;
                    merged =
                      ((case userDoc of Some d \<Rightarrow> d | None \<Rightarrow> Map.empty) ++ settings)
                        (js ''updatedAt'' \<mapsto> FTimestamp (now_updatedAt env));
                    updatedSettings =
                      (if userDoc = None
                       then merged(js ''createdAt'' \<mapsto> FTimestamp (now_createdAt env))
                       else merged)
                in case rejects env (SetDoc USERS_COLLECTION uid) of
                     Some e \<Rightarrow>
                       (Inl e, db, [GetDoc USERS_COLLECTION uid, SetDoc USERS_COLLECTION uid])
                   | None \<Rightarrow>
                       (Inr (), db\<lparr>users := AList.update uid updatedSettings (users db)\<rparr>,
                        [GetDoc USERS_COLLECTION uid, SetDoc USERS_COLLECTION uid]))))"

definition getUserSettings ::
  "firestore_env \<Rightarrow> jsstring option \<Rightarrow> firestore
     \<Rightarrow> (js_error + document option) \<times> firestore \<times> firestore_call list" where
  "getUserSettings env user db =
     (case user of
        None \<Rightarrow> (Inr None, db, [])
      | Some uid \<Rightarrow>
          (case rejects env (GetDoc USERS_COLLECTION uid) of
             Some e \<Rightarrow> (Inl e, db, [GetDoc USERS_COLLECTION uid])
           | None \<Rightarrow> (Inr (map_of (users db) uid), db, [GetDoc USERS_COLLECTION uid])))"

text \<open>The documents \<open>where('userId', '==', uid)\<close> selects.\<close>

definition history_of :: "jsstring \<Rightarrow> (jsstring \<times> document) list \<Rightarrow> (jsstring \<times> document) list" where
  "history_of uid docs = filter (\<lambda>(i, d). d (js ''userId'') = Some (FString uid)) docs"

text \<open>
  \<open>deleteUserData\<close> maps \<open>deleteDoc\<close> over the query result, so every delete is
  issued before any is awaited, and each settles on its own: \<open>Promise.all\<close> rejects
  when one of them rejects, and the others are neither cancelled nor undone. The
  database returned is the one after all of them have settled.
\<close>

definition deleteUserData ::
  "firestore_env \<Rightarrow> jsstring option \<Rightarrow> firestore
     \<Rightarrow> (js_error + unit) \<times> firestore \<times> firestore_call list" where
  "deleteUserData env user db =
     (case user of
        None \<Rightarrow> (Inl (new_Error (js ''No user logged in'')), db, [])
      | Some uid \<Rightarrow>
          (case rejects env (DeleteDoc USERS_COLLECTION uid) of
             Some e \<Rightarrow> (Inl e, db, [DeleteDoc USERS_COLLECTION uid])
           | None \<Rightarrow>
               (let db1 = db\<lparr>users := AList.delete uid (users db)\<rparr> in
                case rejects env (GetDocs TALK_HISTORY_COLLECTION) of
                  Some e \<Rightarrow>
                    (Inl e, db1,
                     [DeleteDoc USERS_COLLECTION uid, GetDocs TALK_HISTORY_COLLECTION])
                | None \<Rightarrow>
                    (let historyDocs = map fst (history_of uid (talk_history db1));
                         deletePromises = map (DeleteDoc TALK_HISTORY_COLLECTION) historyDocs;
                         rejected = List.map_filter (rejects env) deletePromises;
                         db2 = db1\<lparr>talk_history :=
                                 filter (\<lambda>(i, d). \<not> (i \<in> set historyDocs \<and>
                                     rejects env (DeleteDoc TALK_HISTORY_COLLECTION i) = None))
                                   (talk_history db1)\<rparr>
                     in ((case rejected of [] \<Rightarrow> Inr () | e # es \<Rightarrow> Inl e), db2,
                         [DeleteDoc USERS_COLLECTION uid, GetDocs TALK_HISTORY_COLLECTION]
                           @ deletePromises)))))"

definition saveTalkHistory ::
  "firestore_env \<Rightarrow> document \<Rightarrow> firestore
     \<Rightarrow> (js_error + jsstring) \<times> firestore \<times> firestore_call list" where
  "saveTalkHistory env historyItem db =
     (let new_id = auto_id env in
      case rejects env (SetDoc TALK_HISTORY_COLLECTION new_id) of
        Some e \<Rightarrow> (Inl e, db, [SetDoc TALK_HISTORY_COLLECTION new_id])
      | None \<Rightarrow>
          (Inr new_id,
           db\<lparr>talk_history :=
                 AList.update new_id (historyItem(js ''id'' \<mapsto> FString new_id))
                   (talk_history db)\<rparr>,
           [SetDoc TALK_HISTORY_COLLECTION new_id]))"

definition getUserTalkHistory ::
  "firestore_env \<Rightarrow> jsstring \<Rightarrow> firestore
     \<Rightarrow> (js_error + document list) \<times> firestore \<times> firestore_call list" where
  "getUserTalkHistory env userId db =
     (case rejects env (GetDocs TALK_HISTORY_COLLECTION) of
        Some e \<Rightarrow> (Inl e, db, [GetDocs TALK_HISTORY_COLLECTION])
      | None \<Rightarrow>
          (Inr (map snd (order_by_date_desc env
                  (filter (\<lambda>(i, d). d (js ''date'') \<noteq> None)
                     (history_of userId (talk_history db))))),
           db, [GetDocs TALK_HISTORY_COLLECTION]))"

text \<open>The exported operations of the module, and the database each leaves.\<close>

datatype operation =
    SaveUserSettings "jsstring option" document
  | GetUserSettings "jsstring option"
  | DeleteUserData "jsstring option"
  | SaveTalkHistory document
  | GetUserTalkHistory jsstring

fun perform :: "firestore_env \<Rightarrow> operation \<Rightarrow> firestore \<Rightarrow> firestore" where
  "perform env (SaveUserSettings user settings) db = fst (snd (saveUserSettings env user settings db))"
| "perform env (GetUserSettings user) db = fst (snd (getUserSettings env user db))"
| "perform env (DeleteUserData user) db = fst (snd (deleteUserData env user db))"
| "perform env (SaveTalkHistory historyItem) db = fst (snd (saveTalkHistory env historyItem db))"
| "perform env (GetUserTalkHistory userId) db = fst (snd (getUserTalkHistory env userId db))"

text \<open>The value of field \<open>k\<close> of document \<open>i\<close> of a collection, if both exist.\<close>

definition field_of :: "(jsstring \<times> document) list \<Rightarrow> jsstring \<Rightarrow> jsstring \<Rightarrow> fval option" where
  "field_of docs i k = (case map_of docs i of None \<Rightarrow> None | Some d \<Rightarrow> d k)"

definition no_rejection :: "firestore_call \<Rightarrow> js_error option" where
  "no_rejection c = None"

definition unavailable :: js_error where
  "unavailable = \<lparr>name_e = js ''FirebaseError'', message_e = js ''unavailable''\<rparr>"

definition rejecting :: "firestore_call \<Rightarrow> firestore_call \<Rightarrow> js_error option" where
  "rejecting bad c = (if c = bad then Some unavailable else None)"

definition demo_firestore_env :: "(firestore_call \<Rightarrow> js_error option) \<Rightarrow> firestore_env" where
  "demo_firestore_env r =
     \<lparr>rejects = r, auto_id = js ''h3'', now_updatedAt = 2000, now_createdAt = 2001,
      order_by_date_desc = rev\<rparr>"

definition demo_settings :: document where
  "demo_settings =
     [js ''language'' \<mapsto> FString (js ''en''), js ''createdAt'' \<mapsto> FTimestamp 100,
      js ''updatedAt'' \<mapsto> FTimestamp 100]"

definition demo_history :: "jsstring \<Rightarrow> nat \<Rightarrow> document" where
  "demo_history uid t = [js ''userId'' \<mapsto> FString uid, js ''date'' \<mapsto> FTimestamp t]"

definition demo_firestore :: firestore where
  "demo_firestore =
     \<lparr>users = [(js ''u1'', demo_settings)],
      talk_history =
        [(js ''h1'', demo_history (js ''u1'') 10), (js ''h2'', demo_history (js ''u1'') 20),
         (js ''h9'', demo_history (js ''u2'') 30)]\<rparr>"


section \<open>The route \<open>/api/tts\<close>\<close>




























section \<open>The component \<open>MicButton\<close>\<close>

text \<open>
  The props of the component; a callback prop is recorded by whether it is given, and
  its calls appear in the log of the component.
\<close>

record MicButtonProps =
  onRecordingComplete :: bool
  onRecordingStart :: bool
  onRecordingCancel :: bool
  onBeforeRecording :: bool
  disabled :: bool
  maxDuration :: rat
  externalIsRecording :: "bool option"
  autoStopSilence :: nat

datatype callback =
    BeforeRecording
  | RecordingStart
  | RecordingComplete "8 word list"
  | RecordingCancel

text \<open>
  \<open>MicButton\<close> is a function component: every render runs the function again and
  creates new constants \<open>isRecording\<close>, \<open>hasSpeechStarted\<close>, \<open>startRecording\<close>,
  \<open>stopRecording\<close>, \<open>checkSilence\<close> and so on. A function created in a render reads
  the state constants of that render for as long as it lives; \<open>setIsRecording\<close> changes
  what the next render sees, not what an existing closure sees. A \<open>render\<close> is what
  the closures of one render read: the props and the state values of that render. Refs
  are shared and always current.
\<close>

record render =
  r_props :: MicButtonProps
  r_isRecording :: bool
  r_isPermissionDenied :: bool
  r_hasSpeechStarted :: bool

datatype RecordingState = inactive | recording

text \<open>
  The \<open>MediaRecorder\<close>: its state, whether the task that \<open>stop()\<close> queues (fire
  \<open>dataavailable\<close>, then \<open>stop\<close>) is still to run, and the render whose
  \<open>startRecording\<close> installed \<open>onstop\<close>.
\<close>

record MediaRecorder_object =
  recorder_state :: RecordingState
  stop_task :: bool
  onstop :: render

text \<open>
  The component between events: its React state, its refs, and the log of the callback
  props it has called. A ref that holds the id of a timer or of an animation frame is
  modelled by what is pending: the interval with its start time and the render of its
  callback, the animation frame with the render of \<open>updateLevel\<close>, the silence timeout
  with its deadline and the render of its callback. \<open>silenceTimeoutRef\<close> tells whether
  the ref is non-null; it stays so after the timeout has fired.
\<close>

record MicButton =
  isRecording :: bool
  recordingDuration :: int
  isPermissionDenied :: bool
  recordingLevel :: rat
  hasSpeechStarted :: bool
  mediaRecorderRef :: "MediaRecorder_object option"
  audioChunksRef :: "8 word list list"
  animationFrameRef :: "render option"
  timerIntervalRef :: "(nat \<times> render) option"
  audioContextRef :: bool
  analyserRef :: bool
  micStreamRef :: bool
  silenceTimeoutRef :: bool
  silenceTimer :: "(nat \<times> render) option"
  lastAudioLevelRef :: rat
  called :: "callback list"

text \<open>What the closures of the current render read.\<close>

definition render_of :: "MicButtonProps \<Rightarrow> MicButton \<Rightarrow> render" where
  "render_of props m =
     \<lparr>r_props = props, r_isRecording = isRecording m,
      r_isPermissionDenied = isPermissionDenied m, r_hasSpeechStarted = hasSpeechStarted m\<rparr>"

text \<open>
  \<open>MediaRecorder.stop()\<close>: a recording recorder becomes inactive at once and queues the
  task that fires \<open>dataavailable\<close> and \<open>stop\<close>; on an inactive recorder it does nothing.
\<close>

definition MediaRecorder_stop :: "MicButton \<Rightarrow> MicButton" where
  "MediaRecorder_stop m =
     (case mediaRecorderRef m of
        None \<Rightarrow> m
      | Some rec \<Rightarrow>
          if recorder_state rec = recording
          then m\<lparr>mediaRecorderRef := Some (rec\<lparr>recorder_state := inactive, stop_task := True\<rparr>)\<rparr>
          else m)"

definition stopRecording :: "render \<Rightarrow> MicButton \<Rightarrow> MicButton" where
  "stopRecording r m =
     (if \<not> r_isRecording r \<or> mediaRecorderRef m = None then m else MediaRecorder_stop m)"

definition cancelRecording :: "render \<Rightarrow> MicButton \<Rightarrow> MicButton" where
  "cancelRecording r m =
     (if \<not> r_isRecording r \<or> mediaRecorderRef m = None then m
      else
        (let m1 = MediaRecorder_stop m
         in if onRecordingCancel (r_props r) then m1\<lparr>called := called m1 @ [RecordingCancel]\<rparr>
            else m1))"

text \<open>\<open>clearTimeout(silenceTimeoutRef.current); silenceTimeoutRef.current = null\<close>\<close>

definition clear_silence_timeout :: "MicButton \<Rightarrow> MicButton" where
  "clear_silence_timeout m = m\<lparr>silenceTimer := None, silenceTimeoutRef := False\<rparr>"

text \<open>
  \<open>checkSilence(audioLevel)\<close> of render \<open>r\<close> at time \<open>now\<close>. The level is a multiple
  of \<open>1/16384\<close>, for which the comparisons with the doubles \<open>0.05\<close> and \<open>0.1\<close> agree
  with the comparisons of rationals.
\<close>

definition checkSilence :: "render \<Rightarrow> nat \<Rightarrow> rat \<Rightarrow> MicButton \<Rightarrow> MicButton" where
  "checkSilence r now audioLevel m =
     (let SILENCE_THRESHOLD = 5 / 100;
          MIN_SPEECH_LEVEL = 1 / 10;
          m1 = (if audioLevel > MIN_SPEECH_LEVEL
                then (let m0 = m\<lparr>hasSpeechStarted := True, lastAudioLevelRef := audioLevel\<rparr>
                      in if silenceTimeoutRef m0 then clear_silence_timeout m0 else m0)
                else m);
          m2 = (if r_hasSpeechStarted r
                then (if audioLevel < SILENCE_THRESHOLD \<and> lastAudioLevelRef m1 > SILENCE_THRESHOLD
                      then (if \<not> silenceTimeoutRef m1
                            then m1\<lparr>silenceTimeoutRef := True,
                                    silenceTimer := Some (now + autoStopSilence (r_props r), r)\<rparr>
                            else m1)
                      else if audioLevel \<ge> SILENCE_THRESHOLD \<and> silenceTimeoutRef m1
                      then clear_silence_timeout m1
                      else m1)
                else m1)
      in m2\<lparr>lastAudioLevelRef := audioLevel\<rparr>)"

text \<open>
  \<open>Math.min(1, avg / 128)\<close> for the average of the \<open>bufferLength = 128\<close> bytes the
  analyser delivers (\<open>fftSize = 256\<close>); both divisions are exact in doubles.
\<close>

definition audio_level :: "8 word list \<Rightarrow> rat" where
  "audio_level dataArray = min 1 (of_nat (sum_list (map unat (take 128 dataArray))) / 128 / 128)"

text \<open>One run of \<open>updateLevel\<close> of render \<open>r\<close>; it requests the next animation frame.\<close>

definition updateLevel :: "render \<Rightarrow> nat \<Rightarrow> 8 word list \<Rightarrow> MicButton \<Rightarrow> MicButton" where
  "updateLevel r now dataArray m =
     (let level = audio_level dataArray;
          m1 = checkSilence r now level (m\<lparr>recordingLevel := level\<rparr>)
      in m1\<lparr>animationFrameRef := Some r\<rparr>)"

definition visualizeAudio :: "render \<Rightarrow> nat \<Rightarrow> 8 word list \<Rightarrow> MicButton \<Rightarrow> MicButton" where
  "visualizeAudio r now dataArray m =
     (if \<not> analyserRef m \<or> \<not> r_isRecording r then m else updateLevel r now dataArray m)"

text \<open>
  \<open>startRecording\<close> of render \<open>r\<close>: \<open>granted\<close> tells whether \<open>getUserMedia\<close> resolves,
  \<open>now\<close> is the clock when the timer starts, \<open>dataArray\<close> what the analyser would
  deliver to a first \<open>updateLevel\<close>.
\<close>

definition startRecording :: "render \<Rightarrow> bool \<Rightarrow> nat \<Rightarrow> 8 word list \<Rightarrow> MicButton \<Rightarrow> MicButton" where
  "startRecording r granted now dataArray m =
     (if disabled (r_props r) \<or> r_isRecording r \<or> r_isPermissionDenied r then m
      else
        (let m1 = (if onBeforeRecording (r_props r)
                   then m\<lparr>called := called m @ [BeforeRecording]\<rparr> else m)
         in if \<not> granted then m1\<lparr>isPermissionDenied := True\<rparr>
            else
              (let m2 = m1\<lparr>micStreamRef := True, audioContextRef := True, analyserRef := True,
                           mediaRecorderRef :=
                             Some \<lparr>recorder_state = recording, stop_task = False, onstop = r\<rparr>,
                           audioChunksRef := [],
                           isRecording := True\<rparr>;
                   m3 = (if onRecordingStart (r_props r)
                         then m2\<lparr>called := called m2 @ [RecordingStart]\<rparr> else m2);
                   m4 = m3\<lparr>timerIntervalRef := Some (now, r)\<rparr>
               in visualizeAudio r now dataArray m4)))"

text \<open>The callback of \<open>setInterval\<close>, when the clock reads \<open>now\<close>.\<close>

definition timer_tick :: "nat \<Rightarrow> MicButton \<Rightarrow> MicButton" where
  "timer_tick now m =
     (case timerIntervalRef m of
        None \<Rightarrow> m
      | Some (startTime, r) \<Rightarrow>
          (let seconds = (int now - int startTime) div 1000;
               m1 = m\<lparr>recordingDuration := seconds\<rparr>
           in if of_int seconds \<ge> maxDuration (r_props r) then stopRecording r m1 else m1))"

text \<open>The callback of the silence timeout; the platform runs it no earlier than its deadline.\<close>

definition silence_timeout :: "nat \<Rightarrow> MicButton \<Rightarrow> MicButton" where
  "silence_timeout now m =
     (case silenceTimer m of
        None \<Rightarrow> m
      | Some (deadline, r) \<Rightarrow>
          if now < deadline then m
          else
            (let m1 = m\<lparr>silenceTimer := None\<rparr>
             in if r_isRecording r then stopRecording r m1 else m1))"

text \<open>
  The task queued by \<open>MediaRecorder.stop()\<close>: \<open>ondataavailable\<close> with the recorded
  data, then \<open>onstop\<close>.
\<close>

definition recorder_stopped :: "8 word list \<Rightarrow> MicButton \<Rightarrow> MicButton" where
  "recorder_stopped data m =
     (case mediaRecorderRef m of
        None \<Rightarrow> m
      | Some rec \<Rightarrow>
          if \<not> stop_task rec then m
          else
            (let chunks = audioChunksRef m @ [data];
                 audioBlob = concat chunks;
                 m1 = m\<lparr>audioChunksRef := chunks,
                         mediaRecorderRef := Some (rec\<lparr>stop_task := False\<rparr>)\<rparr>;
                 m2 = (if onRecordingComplete (r_props (onstop rec))
                       then m1\<lparr>called := called m1 @ [RecordingComplete audioBlob]\<rparr> else m1)
             in m2\<lparr>isRecording := False, recordingDuration := 0, hasSpeechStarted := False,
                    animationFrameRef := None, timerIntervalRef := None,
                    silenceTimeoutRef := False, silenceTimer := None, micStreamRef := False\<rparr>))"

text \<open>
  What happens to a mounted component: a click on the main button
  (\<open>onClick={isRecording ? stopRecording : startRecording}\<close>, of the current render), a
  click on the cancel button (rendered while \<open>isRecording\<close>), a new value of the prop
  \<open>isRecording\<close> from the parent (the effect on \<open>externalIsRecording\<close> runs in the
  render that receives it), a tick of the interval, an animation frame, the silence
  timeout, and the recorder's stop task. The other props do not change, and the
  component stays mounted.
\<close>

datatype event =
    ClickButton bool nat "8 word list"
  | ClickCancel
  | ParentSets bool bool nat "8 word list"
  | TimerTick nat
  | AnimationFrame nat "8 word list"
  | SilenceTimeout nat
  | RecorderStopped "8 word list"

fun step :: "MicButtonProps \<Rightarrow> MicButton \<Rightarrow> event \<Rightarrow> MicButton" where
  "step props m (ClickButton granted now dataArray) =
     (if isRecording m then stopRecording (render_of props m) m
      else startRecording (render_of props m) granted now dataArray m)"
| "step props m ClickCancel =
     (if isRecording m then cancelRecording (render_of props m) m else m)"
| "step props m (ParentSets external granted now dataArray) =
     (if external \<noteq> isRecording m
      then (if external
            then startRecording (render_of (props\<lparr>externalIsRecording := Some external\<rparr>) m)
                   granted now dataArray m
            else stopRecording (render_of (props\<lparr>externalIsRecording := Some external\<rparr>) m) m)
      else m)"
| "step props m (TimerTick now) = timer_tick now m"
| "step props m (AnimationFrame now dataArray) =
     (case animationFrameRef m of None \<Rightarrow> m | Some r \<Rightarrow> updateLevel r now dataArray m)"
| "step props m (SilenceTimeout now) = silence_timeout now m"
| "step props m (RecorderStopped data) = recorder_stopped data m"

definition run :: "MicButtonProps \<Rightarrow> MicButton \<Rightarrow> event list \<Rightarrow> MicButton" where
  "run props m events = foldl (step props) m events"

text \<open>The component after its first render.\<close>

definition mounted :: MicButton where
  "mounted =
     \<lparr>isRecording = False, recordingDuration = 0, isPermissionDenied = False,
      recordingLevel = 0, hasSpeechStarted = False, mediaRecorderRef = None,
      audioChunksRef = [], animationFrameRef = None, timerIntervalRef = None,
      audioContextRef = False, analyserRef = False, micStreamRef = False,
      silenceTimeoutRef = False, silenceTimer = None, lastAudioLevelRef = 0, called = []\<rparr>"

text \<open>The props a parent passes when it gives the four callbacks and nothing else.\<close>

definition default_props :: MicButtonProps where
  "default_props =
     \<lparr>onRecordingComplete = True, onRecordingStart = True, onRecordingCancel = True,
      onBeforeRecording = True, disabled = False, maxDuration = 60,
      externalIsRecording = None, autoStopSilence = 2000\<rparr>"

text \<open>
  The closures a component holds are stale when none of them belongs to a render that
  saw \<open>isRecording = true\<close>, no animation frame and no silence timeout is pending, and
  speech has not been noticed.
\<close>

definition stale :: "MicButton \<Rightarrow> bool" where
  "stale m \<longleftrightarrow>
     animationFrameRef m = None \<and> silenceTimer m = None \<and> \<not> silenceTimeoutRef m \<and>
     \<not> hasSpeechStarted m \<and> recordingLevel m = 0 \<and>
     (case timerIntervalRef m of None \<Rightarrow> True | Some (startTime, r) \<Rightarrow> \<not> r_isRecording r)"

text \<open>Analyser data of level \<open>1/2\<close> (speech) and of level \<open>0\<close> (silence).\<close>

definition loud :: "8 word list" where
  "loud = replicate 128 64"

definition silent :: "8 word list" where
  "silent = replicate 128 0"


section \<open>Properties\<close>

subsection \<open>Strings\<close>

lemma code_unit_inj: "inj (\<lambda>c::char. (word_of_nat (of_char c) :: 16 word))"
proof (rule injI)
  fix x y :: char
  assume "(word_of_nat (of_char x) :: 16 word) = word_of_nat (of_char y)"
  then have "take_bit 16 (of_char x :: nat) = take_bit 16 (of_char y :: nat)"
    by (simp add: word_of_nat_eq_iff)
  moreover have "(of_char c :: nat) < 2 ^ 16" for c
    by (rule less_trans [OF nat_of_char_less_256]) simp
  ultimately have "(of_char x :: nat) = of_char y"
    by (simp add: take_bit_nat_eq_self)
  then show "x = y" by simp
qed

lemma js_eq_iff [simp]: "js a = js b \<longleftrightarrow> a = b"
  unfolding js_def by (rule inj_map_eq_map [OF code_unit_inj])

lemma js_Nil [simp]: "js s = [] \<longleftrightarrow> s = []" by (simp add: js_def)


subsection \<open>The chat hook\<close>

lemma all_whitespace_trim:
  assumes "\<forall>c \<in> set s. is_whitespace c"
  shows "trim s = []"
proof -
  have d: "dropWhile is_whitespace s = []"
    using assms by (simp add: dropWhile_eq_Nil_conv)
  show ?thesis unfolding trim_def d by simp
qed

lemma trim_empty_all_whitespace:
  assumes "trim s = []"
  shows "\<forall>c \<in> set s. is_whitespace c"
proof -
  let ?d = "dropWhile is_whitespace s"
  from assms have "\<forall>c \<in> set ?d. is_whitespace c"
    by (simp add: trim_def dropWhile_eq_Nil_conv)
  moreover have "?d \<noteq> [] \<Longrightarrow> \<not> is_whitespace (hd ?d)"
    by (rule hd_dropWhile)
  ultimately have "?d = []"
    by (cases ?d) auto
  then show ?thesis by (simp add: dropWhile_eq_Nil_conv)
qed

text \<open>
  Claim C9. \<open>addMessage\<close> with a content that is empty or consists only of whitespace
  (the code units \<open>trim\<close> strips) is a no-op: the state, with its message list,
  \<open>isLoading\<close> and \<open>error\<close>, is returned as it was, and no request or callback is
  issued, for every state, role, closure and environment.
\<close>

theorem addMessage_blank_is_noop:
  assumes "text_arg = [] \<or> (\<forall>c \<in> set text_arg. is_whitespace c)"
  shows "addMessage opts cl env text_arg role_arg st = (st, [])"
  using assms by (auto simp add: addMessage_def all_whitespace_trim)

text \<open>
  A content of a space, a tab, a line feed and an ideographic space.
\<close>

theorem addMessage_blank_is_noop_witness:
  "addMessage demo_options demo_closure (demo_env (Fulfilled (streamed [] None)))
     [0x20, 0x09, 0x0A, 0x3000] User demo_state = (demo_state, [])"
  by (rule addMessage_blank_is_noop) (simp add: is_whitespace_def)

lemma set_content_twice:
  "set_content a c2 (set_content a c1 ms) = set_content a c2 ms"
  by (induction ms) (auto simp add: set_content_def)

lemma read_loop_eq:
  "read_loop a cs acc ms =
     (acc @ stream_text cs,
      if List.map_filter chunk_text cs = [] then ms
      else set_content a (JString (acc @ stream_text cs)) ms)"
proof (induction cs arbitrary: acc ms)
  case Nil
  then show ?case by (simp add: stream_text_def map_filter_simps)
next
  case (Cons c cs)
  show ?case
  proof (cases "chunk_text c")
    case None
    then have "ToString (chunk_content c) = None" by (simp add: chunk_text_def)
    then show ?thesis
      using None Cons.IH [of acc ms] by (simp add: stream_text_def map_filter_simps)
  next
    case (Some t)
    then have "ToString (chunk_content c) = Some t" by (simp add: chunk_text_def)
    then show ?thesis
      using Some Cons.IH [of "acc @ t" "set_content a (JString (acc @ t)) ms"]
      by (simp add: stream_text_def map_filter_simps Let_def set_content_twice)
  qed
qed

lemma no_chunk_text:
  "List.map_filter chunk_text cs = [] \<longleftrightarrow> (\<forall>c \<in> set cs. chunk_text c = None)"
  by (induction cs) (auto simp add: map_filter_simps split: option.splits)

lemma chunk_text_cases:
  "chunk_text c =
     (case JSON_parse c of
        None \<Rightarrow> Some (decoded c)
      | Some JNull \<Rightarrow> Some (decoded c)
      | Some parsed \<Rightarrow>
          (if truthy (get_property parsed (js ''content''))
           then (case get_property parsed (js ''content'') of
                   Some v \<Rightarrow> ToString v | None \<Rightarrow> Some [])
           else if truthy (delta_content parsed)
           then (case delta_content parsed of Some v \<Rightarrow> ToString v | None \<Rightarrow> Some [])
           else Some []))"
proof (cases "JSON_parse c")
  case None
  then show ?thesis by (simp add: chunk_text_def chunk_content_def)
next
  case (Some parsed)
  have or3: "ToString (or_empty (js_or a b)) =
      (if truthy a then (case a of Some v \<Rightarrow> ToString v | None \<Rightarrow> Some [])
       else if truthy b then (case b of Some v \<Rightarrow> ToString v | None \<Rightarrow> Some [])
       else Some [])" for a b
    by (cases a; cases b) (simp_all add: or_empty_def js_or_def)
  show ?thesis
    by (cases parsed) (simp_all only: Some chunk_text_def chunk_content_def or3 option.case json.case ToString.simps)
qed

lemma last_set_content:
  "ms \<noteq> [] \<Longrightarrow> last (set_content a c ms) =
     (if id_m (last ms) = a then (last ms)\<lparr>content := c, isLoading_m := Some False\<rparr> else last ms)"
  by (simp add: set_content_def last_map)

lemma last_set_error:
  "ms \<noteq> [] \<Longrightarrow> last (set_error a c ms) =
     (if id_m (last ms) = a then (last ms)\<lparr>error_m := Some c, isLoading_m := Some False\<rparr>
      else last ms)"
  by (simp add: set_error_def last_map)

lemma set_error_nonempty: "set_error a c ms \<noteq> [] \<longleftrightarrow> ms \<noteq> []"
  by (simp add: set_error_def)

lemma aborted_by: "aborted (abort_by cause new_AbortController)"
  by (cases cause) (simp_all add: abortRequest_def unmount_cleanup_def new_AbortController_def)

text \<open>
  A body that the handler reads to its end was not interrupted.
\<close>

lemma completed_not_interrupted:
  assumes "streamingEnabled opts" and "settled_response opts env = Fulfilled r"
    and "body r = Some stream" and "failure stream = None"
  shows "interruption opts env = None"
proof (cases "interruption opts env")
  case None
  then show ?thesis .
next
  case (Some i)
  obtain cause point where i: "i = (cause, point)" by (cases i)
  show ?thesis
  proof (cases point)
    case BeforeResponse
    with Some i assms(2) show ?thesis by (simp add: settled_response_def)
  next
    case (AfterResponse k)
    show ?thesis
    proof (cases "response env")
      case (Rejected e)
      with Some i AfterResponse show ?thesis
        by (auto simp add: interruption_def split: option.splits if_splits abort_point.splits)
    next
      case (Fulfilled r0)
      from Some i AfterResponse Fulfilled assms(1) obtain stream0 where "body r0 = Some stream0"
        by (cases "body r0")
          (auto simp add: interruption_def split: option.splits if_splits abort_point.splits)
      with Some i AfterResponse Fulfilled assms(2) have
        "body r = Some \<lparr>chunks = take k (chunks stream0), failure = Some (abort_error env)\<rparr>"
        by (auto simp add: settled_response_def)
      with assms(3,4) show ?thesis by auto
    qed
  qed
qed

lemma streaming_run:
  assumes "trim text_arg \<noteq> []" "streamingEnabled opts" "settled_response opts env = Fulfilled r"
    "ok r" "body r = Some stream" "failure stream = None"
  shows "addMessage opts cl env text_arg User st =
     (st\<lparr>messages :=
           (if List.map_filter chunk_text (chunks stream) = []
            then pending_messages opts env text_arg st
            else set_content (placeholder_id env) (JString (stream_text (chunks stream)))
                   (pending_messages opts env text_arg st)),
         isLoading := False, error := None\<rparr>,
      Fetch (apiEndpoint opts) (authorization opts)
        (prepare_apiMessages cl (createMessage (new_id env) (new_time env) (JString text_arg) User))
        True #
      (if onMessageResponse opts
       then [OnMessageResponse (final_message env (JString (stream_text (chunks stream))))]
       else []))"
proof -
  have "\<not> unmounted opts env"
    using completed_not_interrupted [OF assms(2,3,5,6)] by (simp add: unmounted_def)
  then show ?thesis
    using assms
    by (simp add: addMessage_def handleStreamingRequest_def Let_def createMessage_def
        read_loop_eq pending_messages_def placeholder_def final_message_def)
qed

lemma last_pending:
  "last (pending_messages opts env text_arg st) = placeholder env"
  "pending_messages opts env text_arg st \<noteq> []"
  by (simp_all add: pending_messages_def)

lemma content_set_content:
  assumes "m \<in> set (set_content a c ms)" and "id_m m = a"
  shows "content m = c"
proof -
  from assms(1) have
    "m \<in> (\<lambda>m. if id_m m = a then m\<lparr>content := c, isLoading_m := Some False\<rparr> else m) ` set ms"
    unfolding set_content_def by simp
  then obtain m0 where
    m: "m = (if id_m m0 = a then m0\<lparr>content := c, isLoading_m := Some False\<rparr> else m0)"
    by (rule imageE)
  show ?thesis
  proof (cases "id_m m0 = a")
    case True
    with m show ?thesis by simp
  next
    case False
    with m assms(2) show ?thesis by simp
  qed
qed

lemma set_content_nonempty: "set_content a c ms \<noteq> [] \<longleftrightarrow> ms \<noteq> []"
  by (simp add: set_content_def)

text \<open>
  The message list after the chunks of a body have been read, and its last message.
\<close>

lemma streamed_messages:
  fixes opts env text_arg st cs
  defines "ms \<equiv>
     (if List.map_filter chunk_text cs = [] then pending_messages opts env text_arg st
      else set_content (placeholder_id env) (JString (stream_text cs))
             (pending_messages opts env text_arg st))"
  shows "ms \<noteq> []"
    and "id_m (last ms) = placeholder_id env"
    and "role (last ms) = Assistant"
    and "error_m (last ms) = None"
    and "content (last ms) = JString (stream_text cs)"
    and "isLoading_m (last ms) = Some (\<forall>c \<in> set cs. chunk_text c = None)"
proof -
  have e: "List.map_filter chunk_text cs = [] \<Longrightarrow> stream_text cs = []"
    by (simp add: stream_text_def)
  show "ms \<noteq> []"
    by (simp add: ms_def last_pending set_content_nonempty)
  show "id_m (last ms) = placeholder_id env"
    by (simp add: ms_def last_pending last_set_content placeholder_def)
  show "role (last ms) = Assistant"
    by (simp add: ms_def last_pending last_set_content placeholder_def)
  show "error_m (last ms) = None"
    by (simp add: ms_def last_pending last_set_content placeholder_def)
  show "content (last ms) = JString (stream_text cs)"
    using e by (simp add: ms_def last_pending last_set_content placeholder_def)
  show "isLoading_m (last ms) = Some (\<forall>c \<in> set cs. chunk_text c = None)"
    unfolding no_chunk_text [symmetric]
    by (simp add: ms_def last_pending last_set_content placeholder_def)
qed

text \<open>
  Claim C1, as amended. When a user message is added in the streaming path, \<open>fetch\<close>
  resolves with \<open>ok\<close> and a body, and the body ends after finitely many chunks, the
  assistant's message (the last of the list, and every message with its id once a chunk
  has given a text) has as content the concatenation, in arrival order, of the texts of
  the chunks that have one, and \<open>onMessageResponse\<close>, when given, is called once with a
  message of that content. The text of a chunk is its raw decoded text when
  \<open>JSON.parse\<close> throws or returns \<open>null\<close>; otherwise it is the string conversion of
  \<open>parsed.content\<close> if that is truthy, else of \<open>parsed.choices[0].delta.content\<close> if
  that is truthy, else the empty string. A chunk whose content has no string conversion
  (an object with a member named \<open>toString\<close>, or an array that holds one) has no text:
  it is skipped, and the placeholder keeps \<open>isLoading\<close> true until a chunk has given a
  text.
\<close>

theorem streamed_content_is_concatenation:
  assumes "trim text_arg \<noteq> []" and "streamingEnabled opts"
    and "settled_response opts env = Fulfilled r" and "ok r"
    and "body r = Some stream" and "failure stream = None"
  shows "(case addMessage opts cl env text_arg User st of
           (st', effects) \<Rightarrow>
             messages st' \<noteq> [] \<and>
             id_m (last (messages st')) = placeholder_id env \<and>
             role (last (messages st')) = Assistant \<and>
             content (last (messages st')) =
               JString (concat (List.map_filter chunk_text (chunks stream))) \<and>
             isLoading_m (last (messages st')) =
               Some (\<forall>c \<in> set (chunks stream). chunk_text c = None) \<and>
             ((\<exists>c \<in> set (chunks stream). chunk_text c \<noteq> None) \<longrightarrow>
                (\<forall>m \<in> set (messages st'). id_m m = placeholder_id env \<longrightarrow>
                   content m = JString (concat (List.map_filter chunk_text (chunks stream))))) \<and>
             callbacks effects =
               (if onMessageResponse opts then
                  [OnMessageResponse
                     \<lparr>id_m = placeholder_id env,
                      content = JString (concat (List.map_filter chunk_text (chunks stream))),
                      role = Assistant, timestamp = final_time env,
                      isLoading_m = None, error_m = None\<rparr>]
                else [])) \<and>
         chunk_text c =
           (case JSON_parse c of
              None \<Rightarrow> Some (decoded c)
            | Some JNull \<Rightarrow> Some (decoded c)
            | Some parsed \<Rightarrow>
                (if truthy (get_property parsed (js ''content''))
                 then (case get_property parsed (js ''content'') of
                         Some v \<Rightarrow> ToString v | None \<Rightarrow> Some [])
                 else if truthy (delta_content parsed)
                 then (case delta_content parsed of
                         Some v \<Rightarrow> ToString v | None \<Rightarrow> Some [])
                 else Some []))"
proof -
  let ?final = "JString (stream_text (chunks stream))"
  let ?pend = "pending_messages opts env text_arg st"
  let ?ms = "if List.map_filter chunk_text (chunks stream) = [] then ?pend
             else set_content (placeholder_id env) ?final ?pend"
  note run = streaming_run [OF assms, of cl st]
  note m = streamed_messages [of "chunks stream" opts env text_arg st]
  have m5: "(\<exists>c \<in> set (chunks stream). chunk_text c \<noteq> None) \<longrightarrow>
      (\<forall>m \<in> set ?ms. id_m m = placeholder_id env \<longrightarrow> content m = ?final)"
  proof (intro impI ballI)
    fix m
    assume "\<exists>c \<in> set (chunks stream). chunk_text c \<noteq> None"
    then have "List.map_filter chunk_text (chunks stream) \<noteq> []"
      unfolding no_chunk_text by auto
    moreover assume "m \<in> set ?ms"
    ultimately have "m \<in> set (set_content (placeholder_id env) ?final ?pend)"
      by simp
    moreover assume "id_m m = placeholder_id env"
    ultimately show "content m = ?final"
      by (rule content_set_content)
  qed
  have cb: "callbacks (snd (addMessage opts cl env text_arg User st)) =
               (if onMessageResponse opts then
                  [OnMessageResponse
                     \<lparr>id_m = placeholder_id env, content = ?final,
                      role = Assistant, timestamp = final_time env,
                      isLoading_m = None, error_m = None\<rparr>]
                else [])"
    unfolding run by (simp add: callbacks_def final_message_def)
  have ms: "messages (fst (addMessage opts cl env text_arg User st)) = ?ms"
    unfolding run by simp
  show ?thesis
    using m [folded ms] m5 [folded ms] cb chunk_text_cases [of c]
    unfolding stream_text_def
    by (simp only: split_beta simp_thms)
qed

lemma chunk_text_role_chunk: "chunk_text role_chunk = Some []"
  by (simp add: chunk_text_def chunk_content_def role_chunk_def delta_content_def
      opt_chain_def or_empty_def js_or_def js_def)

lemma chunk_text_delta_chunk: "chunk_text delta_chunk = Some (js ''Hi'')"
  by (simp add: chunk_text_def chunk_content_def delta_chunk_def delta_content_def
      opt_chain_def or_empty_def js_or_def js_def)

lemma chunk_text_plain_chunk: "chunk_text plain_chunk = Some (js '' there'')"
  by (simp add: chunk_text_def chunk_content_def plain_chunk_def)

lemma chunk_text_object_chunk: "chunk_text object_chunk = None"
  by (simp add: chunk_text_def chunk_content_def object_chunk_def delta_content_def
      opt_chain_def or_empty_def js_or_def)

lemma trim_Hello: "trim (js ''Hello'') \<noteq> []"
  by (simp add: trim_def js_def is_whitespace_def)

lemma settled_demo_env: "settled_response opts (demo_env r) = r"
  by (simp add: settled_response_def interruption_def demo_env_def)

text \<open>
  A stream of a role delta, a content delta, a chunk whose content is an object with a
  member named \<open>toString\<close>, and a plain-text chunk yields \<open>Hi there\<close>; a stream of
  the object chunk alone leaves the placeholder loading.
\<close>

theorem streamed_content_is_concatenation_witness:
  "content (last (messages (fst (addMessage demo_options demo_closure
      (demo_env (Fulfilled (streamed [role_chunk, delta_chunk, object_chunk, plain_chunk] None)))
      (js ''Hello'') User demo_state)))) = JString (js ''Hi there'') \<and>
   content (last (messages (fst (addMessage demo_options demo_closure
      (demo_env (Fulfilled (streamed [object_chunk] None)))
      (js ''Hello'') User demo_state)))) = JString [] \<and>
   isLoading_m (last (messages (fst (addMessage demo_options demo_closure
      (demo_env (Fulfilled (streamed [object_chunk] None)))
      (js ''Hello'') User demo_state)))) = Some True"
proof -
  have h2: "streamingEnabled demo_options" by (simp add: demo_options_def)
  have h3: "settled_response demo_options (demo_env (Fulfilled (streamed cs None))) =
      Fulfilled (streamed cs None)" for cs
    by (rule settled_demo_env)
  have h4: "ok (streamed cs None)" for cs by (simp add: streamed_def)
  have h5: "body (streamed cs None) = Some \<lparr>chunks = cs, failure = None\<rparr>" for cs
    by (simp add: streamed_def)
  have h6: "failure \<lparr>chunks = cs, failure = None\<rparr> = None" for cs :: "chunk list" by simp
  from streamed_content_is_concatenation [OF trim_Hello h2 h3 h4 h5 h6,
      of "[role_chunk, delta_chunk, object_chunk, plain_chunk]" demo_closure demo_state
        plain_chunk]
  have a: "content (last (messages (fst (addMessage demo_options demo_closure
      (demo_env (Fulfilled (streamed [role_chunk, delta_chunk, object_chunk, plain_chunk] None)))
      (js ''Hello'') User demo_state)))) = JString (js ''Hi there'')"
    by (simp add: split_beta map_filter_simps chunk_text_role_chunk chunk_text_delta_chunk
        chunk_text_object_chunk chunk_text_plain_chunk js_def)
  from streamed_content_is_concatenation [OF trim_Hello h2 h3 h4 h5 h6,
      of "[object_chunk]" demo_closure demo_state plain_chunk]
  have b: "content (last (messages (fst (addMessage demo_options demo_closure
      (demo_env (Fulfilled (streamed [object_chunk] None)))
      (js ''Hello'') User demo_state)))) = JString [] \<and>
   isLoading_m (last (messages (fst (addMessage demo_options demo_closure
      (demo_env (Fulfilled (streamed [object_chunk] None)))
      (js ''Hello'') User demo_state)))) = Some True"
    by (simp add: split_beta map_filter_simps chunk_text_object_chunk)
  from a b show ?thesis by (simp only: simp_thms)
qed

text \<open>
  Claim C1 as stated fails: the first chunk of an OpenAI stream parses as JSON and has
  neither a \<open>content\<close> field nor a delta content. The claim gives it its raw text; the
  code gives it the empty string.
\<close>

theorem streamed_content_counterexample:
  \<open>content (last (messages (fst (addMessage demo_options demo_closure
      (demo_env (Fulfilled (streamed [role_chunk, delta_chunk] None)))
      (js ''Hello'') User demo_state)))) = JString (js ''Hi'') \<and>
   claimed_stream_text [role_chunk, delta_chunk] =
     Some (js ''{"choices":[{"delta":{"role":"assistant"}}]}Hi'') \<and>
   Some (content (last (messages (fst (addMessage demo_options demo_closure
      (demo_env (Fulfilled (streamed [role_chunk, delta_chunk] None)))
      (js ''Hello'') User demo_state))))) \<noteq>
     map_option JString (claimed_stream_text [role_chunk, delta_chunk])\<close>
proof -
  have run: "addMessage demo_options demo_closure
      (demo_env (Fulfilled (streamed [role_chunk, delta_chunk] None)))
      (js ''Hello'') User demo_state =
    (demo_state\<lparr>messages :=
        set_content (js ''m2'') (JString (js ''Hi''))
          (pending_messages demo_options
             (demo_env (Fulfilled (streamed [role_chunk, delta_chunk] None)))
             (js ''Hello'') demo_state),
        isLoading := False, error := None\<rparr>,
     [Fetch (js ''/api/chat'') None [(User, JString (js ''Hello''))] True,
      OnMessageResponse (final_message
        (demo_env (Fulfilled (streamed [role_chunk, delta_chunk] None)))
        (JString (js ''Hi'')))])"
  proof -
    have u: "\<not> unmounted demo_options
        (demo_env (Fulfilled (streamed [role_chunk, delta_chunk] None)))"
      by (simp add: unmounted_def interruption_def demo_env_def)
    have e: "placeholder_id (demo_env r) = js ''m2''" "new_id (demo_env r) = js ''m1''"
      "new_time (demo_env r) = 1000" "placeholder_time (demo_env r) = 1000"
      "final_time (demo_env r) = 2000" for r
      by (simp_all add: demo_env_def)
    show ?thesis
      using trim_Hello u
      by (simp add: addMessage_def handleStreamingRequest_def Let_def read_loop_eq
          settled_demo_env stream_text_def map_filter_simps e
          chunk_text_role_chunk chunk_text_delta_chunk demo_options_def
          streamed_def pending_messages_def placeholder_def final_message_def
          prepare_apiMessages_def demo_closure_def createMessage_def authorization_def)
  qed
  have claimed: \<open>claimed_stream_text [role_chunk, delta_chunk] =
     Some (js ''{"choices":[{"delta":{"role":"assistant"}}]}Hi'')\<close>
    by (simp add: claimed_stream_text_def claimed_chunk_text_def role_chunk_def delta_chunk_def
        delta_content_def opt_chain_def js_def)
  show ?thesis
    unfolding run claimed
    by (simp add: last_set_content last_pending placeholder_def demo_env_def)
qed

text \<open>
  What \<open>addMessage\<close> returns when the handler throws an \<open>AbortError\<close>, and when the
  streaming handler catches one.
\<close>

lemma rejected_run:
  assumes "trim text_arg \<noteq> []"
    and "name_e e = js ''AbortError''"
    and "settled_response opts env = Rejected e \<or>
         (\<not> streamingEnabled opts \<and>
          (\<exists>r. settled_response opts env = Fulfilled r \<and> ok r \<and> json_body r = Rejected e))"
  shows "addMessage opts cl env text_arg User st =
     (if unmounted opts env
      then st\<lparr>messages := pending_messages opts env text_arg st,
              isLoading := True, error := None\<rparr>
      else st\<lparr>messages :=
                set_error (placeholder_id env) (js ''Request was cancelled'')
                  (pending_messages opts env text_arg st),
              isLoading := False, error := Some (js ''Request was cancelled'')\<rparr>,
      Fetch (apiEndpoint opts) (authorization opts)
        (prepare_apiMessages cl (createMessage (new_id env) (new_time env) (JString text_arg) User))
        (streamingEnabled opts) #
      (if onError opts then [OnError (js ''Request was cancelled'')] else []))"
proof -
  have streaming:
    "handleStreamingRequest opts env api a st2 =
       (Some e, st2, [Fetch (apiEndpoint opts) (authorization opts) api True])"
    if "streamingEnabled opts" for api a st2
    using assms(3) that by (auto simp add: handleStreamingRequest_def)
  have standard:
    "handleStandardRequest opts env api a st2 =
       (Some e, st2, [Fetch (apiEndpoint opts) (authorization opts) api False])"
    if "\<not> streamingEnabled opts" for api a st2
    using assms(3) that by (auto simp add: handleStandardRequest_def)
  show ?thesis
  proof (cases "streamingEnabled opts")
    case True
    then show ?thesis
      using assms(1,2)
      by (simp add: addMessage_def Let_def createMessage_def streaming
          pending_messages_def placeholder_def)
  next
    case False
    then show ?thesis
      using assms(1,2)
      by (simp add: addMessage_def Let_def createMessage_def standard
          pending_messages_def placeholder_def)
  qed
qed

lemma swallowed_run:
  assumes "trim text_arg \<noteq> []" and "name_e e = js ''AbortError''"
    and "streamingEnabled opts" and "settled_response opts env = Fulfilled r" and "ok r"
    and "body r = Some stream" and "failure stream = Some e"
  shows "addMessage opts cl env text_arg User st =
     (st\<lparr>messages :=
           (if List.map_filter chunk_text (chunks stream) = []
            then pending_messages opts env text_arg st
            else set_content (placeholder_id env) (JString (stream_text (chunks stream)))
                   (pending_messages opts env text_arg st)),
         isLoading := unmounted opts env, error := None\<rparr>,
      [Fetch (apiEndpoint opts) (authorization opts)
        (prepare_apiMessages cl (createMessage (new_id env) (new_time env) (JString text_arg) User))
        True])"
  using assms
  by (simp add: addMessage_def handleStreamingRequest_def Let_def createMessage_def
      read_loop_eq pending_messages_def placeholder_def)

lemma interrupted_before:
  assumes "interrupt env = Some (cause, BeforeResponse)"
  shows "settled_response opts env = Rejected (abort_error env)"
    and "unmounted opts env \<longleftrightarrow> cause = ByUnmount"
  using assms
  by (simp_all add: settled_response_def unmounted_def interruption_def aborted_by)

lemma interrupted_json:
  assumes "interrupt env = Some (cause, AfterResponse k)" and "response env = Fulfilled r0"
    and "ok r0" and "\<not> streamingEnabled opts"
  shows "\<exists>r. settled_response opts env = Fulfilled r \<and> ok r \<and>
           json_body r = Rejected (abort_error env)"
    and "unmounted opts env \<longleftrightarrow> cause = ByUnmount"
  using assms
  by (simp_all add: settled_response_def unmounted_def interruption_def aborted_by)

lemma interrupted_body:
  assumes "interrupt env = Some (cause, AfterResponse k)" and "response env = Fulfilled r0"
    and "ok r0" and "streamingEnabled opts" and "body r0 = Some stream0"
    and "k \<le> length (chunks stream0)"
  shows "\<exists>r. settled_response opts env = Fulfilled r \<and> ok r \<and>
           body r = Some \<lparr>chunks = take k (chunks stream0), failure = Some (abort_error env)\<rparr>"
    and "unmounted opts env \<longleftrightarrow> cause = ByUnmount"
  using assms
  by (simp_all add: settled_response_def unmounted_def interruption_def aborted_by)

lemma surfaced_outcome:
  assumes "trim text_arg \<noteq> []" and "name_e e = js ''AbortError''"
    and h: "settled_response opts env = Rejected e \<or>
      (\<not> streamingEnabled opts \<and>
       (\<exists>r. settled_response opts env = Fulfilled r \<and> ok r \<and> json_body r = Rejected e))"
  shows "cancellation_surfaced opts env (unmounted opts env)
           (addMessage opts cl env text_arg User st)"
  unfolding rejected_run [OF assms, of cl st] cancellation_surfaced_def
  by (simp add: callbacks_def last_pending last_set_error set_error_nonempty placeholder_def)

lemma swallowed_outcome:
  assumes "trim text_arg \<noteq> []" and "name_e e = js ''AbortError''"
    and "streamingEnabled opts" and "settled_response opts env = Fulfilled r" and "ok r"
    and "body r = Some stream" and "failure stream = Some e"
  shows "cancellation_swallowed env (chunks stream) (unmounted opts env)
           (addMessage opts cl env text_arg User st)"
proof -
  let ?run = "addMessage opts cl env text_arg User st"
  note m = streamed_messages [of "chunks stream" opts env text_arg st]
  have ms: "messages (fst ?run) =
      (if List.map_filter chunk_text (chunks stream) = []
       then pending_messages opts env text_arg st
       else set_content (placeholder_id env) (JString (stream_text (chunks stream)))
              (pending_messages opts env text_arg st))"
    unfolding swallowed_run [OF assms, of cl st] by simp
  have rest: "callbacks (snd ?run) = []" "error (fst ?run) = None"
    "isLoading (fst ?run) \<longleftrightarrow> unmounted opts env"
    unfolding swallowed_run [OF assms, of cl st] by (simp_all add: callbacks_def)
  show ?thesis
    using m [folded ms] rest unfolding stream_text_def cancellation_swallowed_def split_beta
    by (simp only: simp_thms)
qed

lemma abort_error_name: "name_e (abort_error env) = js ''AbortError''"
  by (simp add: abort_error_def)

text \<open>
  Claim C7, as amended. A pending request of a user message is aborted by
  \<open>abortRequest\<close> or by the unmount of the component; what is awaited then rejects with
  an \<open>AbortError\<close>.

  \<^item> When \<open>fetch\<close> is awaited, or \<open>response.json()\<close> in the non-streaming path, the
    error is surfaced as \<open>Request was cancelled\<close>: \<open>onError\<close>, when given, is called
    once with it. After \<open>abortRequest\<close> the error state becomes that message,
    \<open>isLoading\<close> becomes false, and the placeholder of the assistant carries the error
    with \<open>isLoading\<close> false. After an unmount the state updates are discarded: the error
    state stays \<open>null\<close>, and the placeholder stays loading, without an error.

  \<^item> When, in the streaming path, the body is being read, the error is swallowed,
    whatever the number of chunks read: no error is set, \<open>onError\<close> is not called, and
    the placeholder carries no error and has the text of the chunks read as its content
    (it stays loading if none of them has given a text). \<open>isLoading\<close> becomes false
    unless the component is unmounted.

  The last two parts say the same of every \<open>AbortError\<close> that reaches the handler.
\<close>

theorem aborted_request_outcome:
  assumes "trim text_arg \<noteq> []"
  shows
   "((interrupt env = Some (cause, BeforeResponse) \<or>
      (interrupt env = Some (cause, AfterResponse k) \<and> \<not> streamingEnabled opts \<and>
       response env = Fulfilled resp \<and> ok resp)) \<longrightarrow>
       cancellation_surfaced opts env (cause = ByUnmount)
         (addMessage opts cl env text_arg User st)) \<and>
    (interrupt env = Some (cause, AfterResponse k) \<and> streamingEnabled opts \<and>
     response env = Fulfilled resp \<and> ok resp \<and> body resp = Some full \<and>
     k \<le> length (chunks full) \<longrightarrow>
       cancellation_swallowed env (take k (chunks full)) (cause = ByUnmount)
         (addMessage opts cl env text_arg User st)) \<and>
    (name_e e = js ''AbortError'' \<and>
     (settled_response opts env = Rejected e \<or>
      (\<not> streamingEnabled opts \<and>
       (\<exists>r. settled_response opts env = Fulfilled r \<and> ok r \<and> json_body r = Rejected e))) \<longrightarrow>
       cancellation_surfaced opts env (unmounted opts env)
         (addMessage opts cl env text_arg User st)) \<and>
    (name_e e = js ''AbortError'' \<and> streamingEnabled opts \<and>
     (\<exists>r. settled_response opts env = Fulfilled r \<and> ok r \<and> body r = Some stream) \<and>
     failure stream = Some e \<longrightarrow>
       cancellation_swallowed env (chunks stream) (unmounted opts env)
         (addMessage opts cl env text_arg User st))"
proof -
  let ?run = "addMessage opts cl env text_arg User st"
  have c1: "(interrupt env = Some (cause, BeforeResponse) \<or>
      (interrupt env = Some (cause, AfterResponse k) \<and> \<not> streamingEnabled opts \<and>
       response env = Fulfilled resp \<and> ok resp)) \<longrightarrow>
       cancellation_surfaced opts env (cause = ByUnmount) ?run"
  proof
    assume "interrupt env = Some (cause, BeforeResponse) \<or>
      (interrupt env = Some (cause, AfterResponse k) \<and> \<not> streamingEnabled opts \<and>
       response env = Fulfilled resp \<and> ok resp)"
    then have a: "settled_response opts env = Rejected (abort_error env) \<or>
        (\<not> streamingEnabled opts \<and>
         (\<exists>r. settled_response opts env = Fulfilled r \<and> ok r \<and>
            json_body r = Rejected (abort_error env)))"
      and u: "unmounted opts env \<longleftrightarrow> cause = ByUnmount"
      using interrupted_before [of env cause opts] interrupted_json [of env cause k resp opts]
      by blast+
    show "cancellation_surfaced opts env (cause = ByUnmount) ?run"
      using surfaced_outcome [OF assms abort_error_name a, where cl = cl and st = st]
      unfolding u .
  qed
  have c2: "interrupt env = Some (cause, AfterResponse k) \<and> streamingEnabled opts \<and>
     response env = Fulfilled resp \<and> ok resp \<and> body resp = Some full \<and>
     k \<le> length (chunks full) \<longrightarrow>
       cancellation_swallowed env (take k (chunks full)) (cause = ByUnmount) ?run"
  proof (intro impI, elim conjE)
    assume h: "interrupt env = Some (cause, AfterResponse k)" "response env = Fulfilled resp"
      "ok resp" "streamingEnabled opts" "body resp = Some full" "k \<le> length (chunks full)"
    from interrupted_body(1) [OF h] obtain r where
      r: "settled_response opts env = Fulfilled r" "ok r"
        "body r = Some \<lparr>chunks = take k (chunks full), failure = Some (abort_error env)\<rparr>"
      by blast
    have f: "failure \<lparr>chunks = take k (chunks full), failure = Some (abort_error env)\<rparr> =
        Some (abort_error env)"
      by simp
    from swallowed_outcome [OF assms abort_error_name h(4) r f, where cl = cl and st = st]
      interrupted_body(2) [OF h]
    show "cancellation_swallowed env (take k (chunks full)) (cause = ByUnmount) ?run"
      by simp
  qed
  have c3: "name_e e = js ''AbortError'' \<and>
     (settled_response opts env = Rejected e \<or>
      (\<not> streamingEnabled opts \<and>
       (\<exists>r. settled_response opts env = Fulfilled r \<and> ok r \<and> json_body r = Rejected e))) \<longrightarrow>
       cancellation_surfaced opts env (unmounted opts env) ?run"
  proof (intro impI, elim conjE)
    assume "name_e e = js ''AbortError''"
      "settled_response opts env = Rejected e \<or>
      (\<not> streamingEnabled opts \<and>
       (\<exists>r. settled_response opts env = Fulfilled r \<and> ok r \<and> json_body r = Rejected e))"
    then show "cancellation_surfaced opts env (unmounted opts env) ?run"
      by (rule surfaced_outcome [OF assms])
  qed
  have c4: "name_e e = js ''AbortError'' \<and> streamingEnabled opts \<and>
     (\<exists>r. settled_response opts env = Fulfilled r \<and> ok r \<and> body r = Some stream) \<and>
     failure stream = Some e \<longrightarrow>
       cancellation_swallowed env (chunks stream) (unmounted opts env) ?run"
  proof (intro impI, elim conjE exE)
    fix r
    assume "name_e e = js ''AbortError''" "streamingEnabled opts"
      "settled_response opts env = Fulfilled r" "ok r" "body r = Some stream"
      "failure stream = Some e"
    then show "cancellation_swallowed env (chunks stream) (unmounted opts env) ?run"
      by (rule swallowed_outcome [OF assms])
  qed
  show ?thesis
    by (rule conjI c1 c2 c3 c4)+
qed

text \<open>
  The default hook, whose request is interrupted while \<open>fetch\<close> is awaited, by
  \<open>abortRequest\<close> and by an unmount, and by \<open>abortRequest\<close> after the first of two
  chunks of the body.
\<close>

theorem aborted_request_outcome_witness:
  "error (fst (addMessage demo_options demo_closure (interrupted_env ByAbortRequest BeforeResponse)
      (js ''Hello'') User demo_state)) = Some (js ''Request was cancelled'') \<and>
   callbacks (snd (addMessage demo_options demo_closure
      (interrupted_env ByAbortRequest BeforeResponse)
      (js ''Hello'') User demo_state)) = [OnError (js ''Request was cancelled'')] \<and>
   error (fst (addMessage demo_options demo_closure (interrupted_env ByUnmount BeforeResponse)
      (js ''Hello'') User demo_state)) = None \<and>
   callbacks (snd (addMessage demo_options demo_closure (interrupted_env ByUnmount BeforeResponse)
      (js ''Hello'') User demo_state)) = [OnError (js ''Request was cancelled'')] \<and>
   error (fst (addMessage demo_options demo_closure
      (interrupted_env ByAbortRequest (AfterResponse 1))
      (js ''Hello'') User demo_state)) = None \<and>
   callbacks (snd (addMessage demo_options demo_closure
      (interrupted_env ByAbortRequest (AfterResponse 1))
      (js ''Hello'') User demo_state)) = [] \<and>
   content (last (messages (fst (addMessage demo_options demo_closure
      (interrupted_env ByAbortRequest (AfterResponse 1))
      (js ''Hello'') User demo_state)))) = JString (js ''Hi'')"
proof -
  have i: "interrupt (interrupted_env cause point) = Some (cause, point)" for cause point
    by (simp add: interrupted_env_def)
  have r: "response (interrupted_env cause point) =
      Fulfilled (streamed [delta_chunk, plain_chunk] None)" for cause point
    by (simp add: interrupted_env_def demo_env_def)
  have o: "onError demo_options" "streamingEnabled demo_options"
    by (simp_all add: demo_options_def)
  have s: "ok (streamed cs f)" "body (streamed cs f) = Some \<lparr>chunks = cs, failure = f\<rparr>" for cs f
    by (simp_all add: streamed_def)
  note t1 = aborted_request_outcome [OF trim_Hello,
      where opts = demo_options and cl = demo_closure and st = demo_state
        and env = "interrupted_env ByAbortRequest BeforeResponse"
        and cause = ByAbortRequest]
  from t1 have a: "error (fst (addMessage demo_options demo_closure
        (interrupted_env ByAbortRequest BeforeResponse)
        (js ''Hello'') User demo_state)) = Some (js ''Request was cancelled'') \<and>
     callbacks (snd (addMessage demo_options demo_closure
        (interrupted_env ByAbortRequest BeforeResponse)
        (js ''Hello'') User demo_state)) = [OnError (js ''Request was cancelled'')]"
    by (simp add: cancellation_surfaced_def split_beta i o)
  note t2 = aborted_request_outcome [OF trim_Hello,
      where opts = demo_options and cl = demo_closure and st = demo_state
        and env = "interrupted_env ByUnmount BeforeResponse"
        and cause = ByUnmount]
  from t2 have b: "error (fst (addMessage demo_options demo_closure
        (interrupted_env ByUnmount BeforeResponse)
        (js ''Hello'') User demo_state)) = None \<and>
     callbacks (snd (addMessage demo_options demo_closure
        (interrupted_env ByUnmount BeforeResponse)
        (js ''Hello'') User demo_state)) = [OnError (js ''Request was cancelled'')]"
    by (simp add: cancellation_surfaced_def split_beta i o)
  note t3 = aborted_request_outcome [OF trim_Hello,
      where opts = demo_options and cl = demo_closure and st = demo_state
        and env = "interrupted_env ByAbortRequest (AfterResponse 1)"
        and cause = ByAbortRequest and k = 1
        and resp = "streamed [delta_chunk, plain_chunk] None"
        and full = "\<lparr>chunks = [delta_chunk, plain_chunk], failure = None\<rparr>"]
  from t3 have c: "error (fst (addMessage demo_options demo_closure
        (interrupted_env ByAbortRequest (AfterResponse 1))
        (js ''Hello'') User demo_state)) = None \<and>
     callbacks (snd (addMessage demo_options demo_closure
        (interrupted_env ByAbortRequest (AfterResponse 1))
        (js ''Hello'') User demo_state)) = [] \<and>
     content (last (messages (fst (addMessage demo_options demo_closure
        (interrupted_env ByAbortRequest (AfterResponse 1))
        (js ''Hello'') User demo_state)))) = JString (js ''Hi'')"
    by (simp add: cancellation_swallowed_def split_beta i r o s map_filter_simps
        chunk_text_delta_chunk)
  from a b c show ?thesis by (simp only: simp_thms)
qed

text \<open>
  Claim C7 as stated fails: an abort while the body is being read rejects \<open>read()\<close>
  with an \<open>AbortError\<close>, which \<open>handleStreamingRequest\<close> catches and does not
  rethrow. No error is set, \<open>onError\<close> is not called, and a placeholder that has
  received no chunk keeps \<open>isLoading\<close> true.
\<close>

theorem abort_while_streaming_counterexample:
  "error (fst (addMessage demo_options demo_closure
      (demo_env (Fulfilled (streamed [] (Some AbortError)))) (js ''Hello'') User demo_state)) = None \<and>
   callbacks (snd (addMessage demo_options demo_closure
      (demo_env (Fulfilled (streamed [] (Some AbortError)))) (js ''Hello'') User demo_state)) = [] \<and>
   error_m (last (messages (fst (addMessage demo_options demo_closure
      (demo_env (Fulfilled (streamed [] (Some AbortError)))) (js ''Hello'') User demo_state)))) = None \<and>
   isLoading_m (last (messages (fst (addMessage demo_options demo_closure
      (demo_env (Fulfilled (streamed [] (Some AbortError)))) (js ''Hello'') User demo_state)))) = Some True"
proof -
  have u: "\<not> unmounted demo_options (demo_env r)" for r
    by (simp add: unmounted_def interruption_def demo_env_def)
  show ?thesis
    using trim_Hello u
    by (simp add: addMessage_def handleStreamingRequest_def Let_def demo_options_def
        settled_demo_env streamed_def AbortError_def createMessage_def callbacks_def)
qed

subsection \<open>The Firestore module\<close>

lemma field_of_update:
  "field_of (AList.update i d docs) j k = (if j = i then d k else field_of docs j k)"
  by (simp add: field_of_def update_conv')

text \<open>
  Claim C8, as amended. After a successful \<open>saveUserSettings\<close> the user's document
  exists; \<open>updatedAt\<close> is the current timestamp; if the document did not exist,
  \<open>createdAt\<close> is the current timestamp and every other field is the one of
  \<open>settings\<close>; if it existed, every field but \<open>updatedAt\<close>, \<open>createdAt\<close>
  included, has the value \<open>settings\<close> gives it, and its stored value when
  \<open>settings\<close> does not have the field. The documents of other users and the talk
  history are unchanged.
\<close>

theorem saveUserSettings_merges_fields:
  assumes "fst (saveUserSettings env (Some uid) settings db) = Inr ()"
  shows "(case snd (saveUserSettings env (Some uid) settings db) of
           (db', calls) \<Rightarrow>
             map_of (users db') uid \<noteq> None \<and>
             field_of (users db') uid (js ''updatedAt'') = Some (FTimestamp (now_updatedAt env)) \<and>
             (map_of (users db) uid = None \<longrightarrow>
                field_of (users db') uid (js ''createdAt'') = Some (FTimestamp (now_createdAt env)) \<and>
                (\<forall>k. k \<noteq> js ''updatedAt'' \<and> k \<noteq> js ''createdAt'' \<longrightarrow>
                   field_of (users db') uid k = settings k)) \<and>
             (map_of (users db) uid \<noteq> None \<longrightarrow>
                (\<forall>k. k \<noteq> js ''updatedAt'' \<longrightarrow>
                   field_of (users db') uid k =
                     (case settings k of Some v \<Rightarrow> Some v | None \<Rightarrow> field_of (users db) uid k))) \<and>
             (\<forall>u k. u \<noteq> uid \<longrightarrow> field_of (users db') u k = field_of (users db) u k) \<and>
             talk_history db' = talk_history db)"
proof -
  from assms have g: "rejects env (GetDoc USERS_COLLECTION uid) = None"
    by (auto simp add: saveUserSettings_def split: option.splits)
  from assms g have s: "rejects env (SetDoc USERS_COLLECTION uid) = None"
    by (auto simp add: saveUserSettings_def Let_def split: option.splits)
  have upd: "js ''updatedAt'' \<noteq> js ''createdAt''"
    by (simp add: js_def)
  show ?thesis
  proof (cases "map_of (users db) uid")
    case None
    then show ?thesis
      using g s upd
      by (auto simp add: saveUserSettings_def Let_def field_of_update update_conv' map_add_def
          field_of_def split: option.splits)
  next
    case (Some d)
    then show ?thesis
      using g s upd
      by (auto simp add: saveUserSettings_def Let_def field_of_update update_conv' map_add_def
          field_of_def split: option.splits)
  qed
qed


lemma demo_keys:
  "js ''updatedAt'' \<noteq> js ''createdAt''" "js ''language'' \<noteq> js ''createdAt''"
  "js ''language'' \<noteq> js ''updatedAt''" "js ''voice'' \<noteq> js ''createdAt''"
  "js ''voice'' \<noteq> js ''updatedAt''" "js ''voice'' \<noteq> js ''language''"
  by (simp_all add: js_def)

text \<open>
  Saving a new \<open>voice\<close> keeps \<open>language\<close> and \<open>createdAt\<close> and sets \<open>updatedAt\<close>.
\<close>

theorem saveUserSettings_merges_fields_witness:
  "field_of (users (fst (snd (saveUserSettings (demo_firestore_env no_rejection) (Some (js ''u1''))
      [js ''voice'' \<mapsto> FString (js ''nova'')] demo_firestore)))) (js ''u1'') (js ''language'')
     = Some (FString (js ''en'')) \<and>
   field_of (users (fst (snd (saveUserSettings (demo_firestore_env no_rejection) (Some (js ''u1''))
      [js ''voice'' \<mapsto> FString (js ''nova'')] demo_firestore)))) (js ''u1'') (js ''createdAt'')
     = Some (FTimestamp 100) \<and>
   field_of (users (fst (snd (saveUserSettings (demo_firestore_env no_rejection) (Some (js ''u1''))
      [js ''voice'' \<mapsto> FString (js ''nova'')] demo_firestore)))) (js ''u1'') (js ''updatedAt'')
     = Some (FTimestamp 2000)"
proof -
  let ?env = "demo_firestore_env no_rejection"
  let ?settings = "[js ''voice'' \<mapsto> FString (js ''nova'')]"
  let ?db' = "fst (snd (saveUserSettings ?env (Some (js ''u1'')) ?settings demo_firestore))"
  have ok: "fst (saveUserSettings ?env (Some (js ''u1'')) ?settings demo_firestore) = Inr ()"
    by (simp add: saveUserSettings_def demo_firestore_env_def no_rejection_def Let_def)
  have ex: "map_of (users demo_firestore) (js ''u1'') \<noteq> None"
    by (simp add: demo_firestore_def)
  have old: "field_of (users demo_firestore) (js ''u1'') (js ''language'') = Some (FString (js ''en''))"
    "field_of (users demo_firestore) (js ''u1'') (js ''createdAt'') = Some (FTimestamp 100)"
    by (simp_all add: field_of_def demo_firestore_def demo_settings_def demo_keys)
  from saveUserSettings_merges_fields [OF ok] ex
  have upd: "field_of (users ?db') (js ''u1'') (js ''updatedAt'') = Some (FTimestamp 2000)"
    and keep: "\<forall>k. k \<noteq> js ''updatedAt'' \<longrightarrow>
       field_of (users ?db') (js ''u1'') k =
         (case ?settings k of Some v \<Rightarrow> Some v
          | None \<Rightarrow> field_of (users demo_firestore) (js ''u1'') k)"
    by (simp_all add: split_beta demo_firestore_env_def)
  from keep [rule_format, of "js ''language''"] keep [rule_format, of "js ''createdAt''"] upd old
  show ?thesis
    by (simp add: demo_keys)
qed

text \<open>
  Claim C8 as stated fails: \<open>Partial<UserSettings>\<close> admits \<open>createdAt\<close>, and a
  \<open>settings\<close> argument that has it replaces the stored \<open>createdAt\<close> of an existing
  document.
\<close>

theorem saveUserSettings_createdAt_counterexample:
  "map_of (users demo_firestore) (js ''u1'') \<noteq> None \<and>
   field_of (users demo_firestore) (js ''u1'') (js ''createdAt'') = Some (FTimestamp 100) \<and>
   fst (saveUserSettings (demo_firestore_env no_rejection) (Some (js ''u1''))
      [js ''createdAt'' \<mapsto> FTimestamp 999] demo_firestore) = Inr () \<and>
   field_of (users (fst (snd (saveUserSettings (demo_firestore_env no_rejection) (Some (js ''u1''))
      [js ''createdAt'' \<mapsto> FTimestamp 999] demo_firestore)))) (js ''u1'') (js ''createdAt'')
     = Some (FTimestamp 999) \<and>
   field_of (users (fst (snd (saveUserSettings (demo_firestore_env no_rejection) (Some (js ''u1''))
      [js ''createdAt'' \<mapsto> FTimestamp 999] demo_firestore)))) (js ''u1'') (js ''createdAt'')
     \<noteq> field_of (users demo_firestore) (js ''u1'') (js ''createdAt'')"
  by (simp add: saveUserSettings_def demo_firestore_env_def no_rejection_def Let_def
      demo_firestore_def demo_settings_def field_of_def js_def update_conv')

lemma update_fresh:
  "k \<notin> fst ` set xs \<Longrightarrow> AList.update k v xs = xs @ [(k, v)]"
  by (induction xs) auto

lemma map_of_filter_key:
  "map_of (filter (\<lambda>(i, d). Q i) xs) k = (if Q k then map_of xs k else None)"
  by (induction xs) auto

lemma map_of_delete_old:
  "map_of (talk_history (fst (snd (deleteUserData env user db)))) i = None \<or>
   map_of (talk_history (fst (snd (deleteUserData env user db)))) i = map_of (talk_history db) i"
  by (auto simp add: deleteUserData_def Let_def map_of_filter_key split: option.splits)

lemma perform_keeps_or_deletes:
  assumes "auto_id env \<notin> fst ` set (talk_history db)"
  shows "map_of (talk_history (perform env op db)) i = None \<or>
         map_of (talk_history (perform env op db)) i = map_of (talk_history db) i \<or>
         (i = auto_id env \<and> map_of (talk_history db) i = None)"
proof (cases op)
  case (SaveUserSettings user settings)
  then show ?thesis
    by (auto simp add: saveUserSettings_def Let_def split: option.splits)
next
  case (GetUserSettings user)
  then show ?thesis
    by (auto simp add: getUserSettings_def split: option.splits)
next
  case (DeleteUserData user)
  then show ?thesis
    using map_of_delete_old [of env user db i] by auto
next
  case (SaveTalkHistory historyItem)
  have "map_of (talk_history db) (auto_id env) = None"
    using assms by (simp add: map_of_eq_None_iff)
  with SaveTalkHistory show ?thesis
    by (auto simp add: saveTalkHistory_def Let_def update_conv' split: option.splits)
next
  case (GetUserTalkHistory userId)
  then show ?thesis
    by (auto simp add: getUserTalkHistory_def split: option.splits)
qed

text \<open>
  Claim C4. When the generated document id is new in \<open>talk_history\<close>, a
  \<open>saveTalkHistory\<close> whose write is not rejected adds exactly one document, the item
  with the field \<open>id\<close> set to the generated id, under that id, changes nothing else
  and returns the id; and whatever operation of the module runs, a document that was in
  \<open>talk_history\<close> before is afterwards either unchanged or deleted.
\<close>

theorem saveTalkHistory_creates_one_document:
  assumes "auto_id env \<notin> fst ` set (talk_history db)"
  shows "(rejects env (SetDoc TALK_HISTORY_COLLECTION (auto_id env)) = None \<longrightarrow>
            saveTalkHistory env historyItem db =
              (Inr (auto_id env),
               db\<lparr>talk_history := talk_history db @
                  [(auto_id env, historyItem(js ''id'' \<mapsto> FString (auto_id env)))]\<rparr>,
               [SetDoc TALK_HISTORY_COLLECTION (auto_id env)])) \<and>
         (\<forall>i d. map_of (talk_history db) i = Some d \<longrightarrow>
            map_of (talk_history (perform env op db)) i = Some d \<or>
            map_of (talk_history (perform env op db)) i = None)"
proof -
  have upd: "AList.update (auto_id env) v (talk_history db) = talk_history db @ [(auto_id env, v)]"
    for v
    using assms by (rule update_fresh)
  have first: "rejects env (SetDoc TALK_HISTORY_COLLECTION (auto_id env)) = None \<longrightarrow>
            saveTalkHistory env historyItem db =
              (Inr (auto_id env),
               db\<lparr>talk_history := talk_history db @
                  [(auto_id env, historyItem(js ''id'' \<mapsto> FString (auto_id env)))]\<rparr>,
               [SetDoc TALK_HISTORY_COLLECTION (auto_id env)])"
    by (simp add: saveTalkHistory_def Let_def upd)
  have second: "map_of (talk_history (perform env op db)) i = Some d \<or>
            map_of (talk_history (perform env op db)) i = None"
    if "map_of (talk_history db) i = Some d" for i d
    using perform_keeps_or_deletes [OF assms, of op i] that by auto
  from first second show ?thesis by blast
qed


text \<open>
  Saving a fourth item under the new id \<open>h3\<close>.
\<close>

theorem saveTalkHistory_creates_one_document_witness:
  "saveTalkHistory (demo_firestore_env no_rejection) (demo_history (js ''u1'') 40) demo_firestore =
     (Inr (js ''h3''),
      demo_firestore\<lparr>talk_history := talk_history demo_firestore @
         [(js ''h3'', (demo_history (js ''u1'') 40)(js ''id'' \<mapsto> FString (js ''h3'')))]\<rparr>,
      [SetDoc TALK_HISTORY_COLLECTION (js ''h3'')]) \<and>
   map_of (talk_history (perform (demo_firestore_env no_rejection)
        (SaveTalkHistory (demo_history (js ''u1'') 40)) demo_firestore)) (js ''h1'')
     = Some (demo_history (js ''u1'') 10)"
proof -
  have fresh: "auto_id (demo_firestore_env no_rejection) \<notin> fst ` set (talk_history demo_firestore)"
    by (simp add: demo_firestore_env_def demo_firestore_def)
  have ok: "rejects (demo_firestore_env no_rejection)
      (SetDoc TALK_HISTORY_COLLECTION (auto_id (demo_firestore_env no_rejection))) = None"
    by (simp add: demo_firestore_env_def no_rejection_def)
  have old: "map_of (talk_history demo_firestore) (js ''h1'') = Some (demo_history (js ''u1'') 10)"
    by (simp add: demo_firestore_def)
  have new: "map_of (talk_history (perform (demo_firestore_env no_rejection)
        (SaveTalkHistory (demo_history (js ''u1'') 40)) demo_firestore)) (js ''h1'') \<noteq> None"
    by (simp add: saveTalkHistory_def demo_firestore_env_def no_rejection_def demo_firestore_def
        update_conv' Let_def)
  from saveTalkHistory_creates_one_document [OF fresh,
      of "demo_history (js ''u1'') 40" "SaveTalkHistory (demo_history (js ''u1'') 40)"] ok old new
  show ?thesis
    by (auto simp add: demo_firestore_env_def)
qed

lemma isl_first_rejection:
  "isl (case List.map_filter f xs of [] \<Rightarrow> Inr () | e # es \<Rightarrow> Inl e) \<longleftrightarrow> (\<exists>x \<in> set xs. f x \<noteq> None)"
proof -
  have "List.map_filter f xs = [] \<longleftrightarrow> (\<forall>x \<in> set xs. f x = None)"
    by (induction xs) (auto simp add: List.map_filter_simps split: option.splits)
  then show ?thesis
    by (cases "List.map_filter f xs") auto
qed

text \<open>
  Claim C5. When the delete of the settings document and the query are not rejected,
  \<open>deleteUserData\<close> leaves no settings document for the user, issues after them one
  delete for each \<open>talk_history\<close> document whose \<open>userId\<close> is the user's uid, and
  leaves exactly the documents that are not the user's or whose delete was rejected; it
  throws if and only if one of these deletes is rejected. So when it throws, the
  deletes that went through stay done.
\<close>

theorem deleteUserData_is_best_effort:
  assumes "rejects env (DeleteDoc USERS_COLLECTION uid) = None"
    and "rejects env (GetDocs TALK_HISTORY_COLLECTION) = None"
    and "distinct (map fst (talk_history db))"
  shows "(case deleteUserData env (Some uid) db of
           (result, db', calls) \<Rightarrow>
             map_of (users db') uid = None \<and>
             calls = [DeleteDoc USERS_COLLECTION uid, GetDocs TALK_HISTORY_COLLECTION] @
                       map (\<lambda>(i, d). DeleteDoc TALK_HISTORY_COLLECTION i)
                         (history_of uid (talk_history db)) \<and>
             talk_history db' =
               filter (\<lambda>(i, d). \<not> (d (js ''userId'') = Some (FString uid) \<and>
                                   rejects env (DeleteDoc TALK_HISTORY_COLLECTION i) = None))
                 (talk_history db) \<and>
             (isl result \<longleftrightarrow>
                (\<exists>(i, d) \<in> set (talk_history db). d (js ''userId'') = Some (FString uid) \<and>
                    rejects env (DeleteDoc TALK_HISTORY_COLLECTION i) \<noteq> None)))"
proof -
  let ?P = "\<lambda>(i, d). d (js ''userId'') = Some (FString uid)"
  let ?ids = "map fst (history_of uid (talk_history db))"
  have ids: "i \<in> set ?ids \<longleftrightarrow> d (js ''userId'') = Some (FString uid)"
    if "(i, d) \<in> set (talk_history db)" for i d
  proof
    assume "i \<in> set ?ids"
    then obtain d' where d': "(i, d') \<in> set (talk_history db)" "d' (js ''userId'') = Some (FString uid)"
      by (auto simp add: history_of_def)
    with that assms(3) have "d' = d"
      by (meson eq_key_imp_eq_value)
    with d' show "d (js ''userId'') = Some (FString uid)" by simp
  next
    assume "d (js ''userId'') = Some (FString uid)"
    with that show "i \<in> set ?ids"
      by (force simp add: history_of_def)
  qed
  have flt: "filter (\<lambda>(i, d). \<not> (i \<in> set ?ids \<and> rejects env (DeleteDoc TALK_HISTORY_COLLECTION i) = None))
               (talk_history db) =
             filter (\<lambda>(i, d). \<not> (d (js ''userId'') = Some (FString uid) \<and>
                                   rejects env (DeleteDoc TALK_HISTORY_COLLECTION i) = None))
               (talk_history db)"
  proof (rule filter_cong [OF refl])
    fix x
    assume x: "x \<in> set (talk_history db)"
    obtain i d where "x = (i, d)" by (cases x)
    with x ids [of i d] show
      "(case x of (i, d) \<Rightarrow> \<not> (i \<in> set ?ids \<and>
           rejects env (DeleteDoc TALK_HISTORY_COLLECTION i) = None)) =
       (case x of (i, d) \<Rightarrow> \<not> (d (js ''userId'') = Some (FString uid) \<and>
           rejects env (DeleteDoc TALK_HISTORY_COLLECTION i) = None))"
      by simp
  qed
  have calls: "map (DeleteDoc TALK_HISTORY_COLLECTION) ?ids =
      map (\<lambda>(i, d). DeleteDoc TALK_HISTORY_COLLECTION i) (history_of uid (talk_history db))"
    by (simp add: case_prod_beta comp_def)
  have rej: "isl (case List.map_filter (rejects env) (map (DeleteDoc TALK_HISTORY_COLLECTION) ?ids) of
                    [] \<Rightarrow> Inr () | e # es \<Rightarrow> Inl e) \<longleftrightarrow>
      (\<exists>(i, d) \<in> set (talk_history db). d (js ''userId'') = Some (FString uid) \<and>
          rejects env (DeleteDoc TALK_HISTORY_COLLECTION i) \<noteq> None)"
    unfolding isl_first_rejection
    by (auto simp add: history_of_def)
  show ?thesis
    using assms(1,2) flt rej
    by (simp add: deleteUserData_def Let_def delete_conv' case_prod_beta)
qed

text \<open>
  The delete of \<open>h2\<close> is rejected: the call throws, and the settings document and
  \<open>h1\<close> are gone while \<open>h2\<close> is still there.
\<close>

theorem deleteUserData_is_best_effort_witness:
  "isl (fst (deleteUserData (demo_firestore_env (rejecting (DeleteDoc TALK_HISTORY_COLLECTION (js ''h2''))))
          (Some (js ''u1'')) demo_firestore)) \<and>
   fst (snd (deleteUserData (demo_firestore_env (rejecting (DeleteDoc TALK_HISTORY_COLLECTION (js ''h2''))))
          (Some (js ''u1'')) demo_firestore)) =
     \<lparr>users = [],
      talk_history = [(js ''h2'', demo_history (js ''u1'') 20), (js ''h9'', demo_history (js ''u2'') 30)]\<rparr>"
proof -
  let ?env = "demo_firestore_env (rejecting (DeleteDoc TALK_HISTORY_COLLECTION (js ''h2'')))"
  have h1: "rejects ?env (DeleteDoc USERS_COLLECTION (js ''u1'')) = None"
    by (simp add: demo_firestore_env_def rejecting_def)
  have h2: "rejects ?env (GetDocs TALK_HISTORY_COLLECTION) = None"
    by (simp add: demo_firestore_env_def rejecting_def)
  have h3: "distinct (map fst (talk_history demo_firestore))"
    by (simp add: demo_firestore_def)
  have u: "users (fst (snd (deleteUserData ?env (Some (js ''u1'')) demo_firestore))) = []"
    by (simp add: deleteUserData_def Let_def demo_firestore_env_def rejecting_def
        demo_firestore_def AList.delete_eq split: option.splits list.splits)
  from deleteUserData_is_best_effort [OF h1 h2 h3]
  have "isl (fst (deleteUserData ?env (Some (js ''u1'')) demo_firestore))"
    and "talk_history (fst (snd (deleteUserData ?env (Some (js ''u1'')) demo_firestore))) =
      [(js ''h2'', demo_history (js ''u1'') 20), (js ''h9'', demo_history (js ''u2'') 30)]"
    by (simp_all add: split_beta demo_firestore_env_def rejecting_def demo_firestore_def
        demo_history_def)
  with u show ?thesis
    by (cases "fst (snd (deleteUserData ?env (Some (js ''u1'')) demo_firestore))") simp
qed


subsection \<open>The route \<open>/api/tts\<close>\<close>














subsection \<open>The component \<open>MicButton\<close>\<close>

text \<open>
  \<open>startRecording\<close> runs only in a render with \<open>isRecording = false\<close>, and the
  interval callback, \<open>visualizeAudio\<close> and the \<open>stopRecording\<close> they call are
  closures of that render. So every closure the component stores is stale, in every run.
\<close>

lemma stale_mounted: "stale mounted"
  by (simp add: stale_def mounted_def)

lemma stale_stopRecording: "stale m \<Longrightarrow> stale (stopRecording r m)"
  by (auto simp add: stale_def stopRecording_def MediaRecorder_stop_def split: option.splits)

lemma stale_cancelRecording: "stale m \<Longrightarrow> stale (cancelRecording r m)"
  by (auto simp add: stale_def cancelRecording_def MediaRecorder_stop_def Let_def
      split: option.splits)

lemma stale_startRecording: "stale m \<Longrightarrow> stale (startRecording r granted now dataArray m)"
  by (auto simp add: stale_def startRecording_def visualizeAudio_def Let_def split: option.splits)

lemma stale_timer_tick: "stale m \<Longrightarrow> stale (timer_tick now m)"
  by (auto simp add: stale_def timer_tick_def stopRecording_def Let_def split: option.splits)

lemma stale_silence_timeout: "stale m \<Longrightarrow> silence_timeout now m = m"
  by (simp add: stale_def silence_timeout_def)

lemma stale_recorder_stopped: "stale m \<Longrightarrow> stale (recorder_stopped data m)"
  by (auto simp add: stale_def recorder_stopped_def Let_def split: option.splits)

lemma stale_step: "stale m \<Longrightarrow> stale (step props m e)"
proof (cases e)
  case (AnimationFrame now dataArray)
  assume "stale m"
  then have "animationFrameRef m = None" by (simp add: stale_def)
  with AnimationFrame \<open>stale m\<close> show ?thesis by simp
qed (simp_all add: stale_stopRecording stale_cancelRecording stale_startRecording
    stale_timer_tick stale_silence_timeout stale_recorder_stopped)

lemma stale_run: "stale m \<Longrightarrow> stale (run props m events)"
  unfolding run_def by (induction events arbitrary: m) (simp_all add: stale_step)

lemma run_snoc: "run props m (events @ [e]) = step props (run props m events) e"
  by (simp add: run_def)

lemma run_after_first: "run props m (e # events) = run props (run props m [e]) events"
  by (simp add: run_def)

lemma stale_timer_tick_recorder:
  "stale m \<Longrightarrow> mediaRecorderRef (timer_tick now m) = mediaRecorderRef m"
  by (auto simp add: stale_def timer_tick_def stopRecording_def Let_def split: option.splits)


text \<open>
  \<open>checkSilence\<close> itself arms the timeout only in a render that saw speech, when
  the level falls below 0.05 from above it.
\<close>

lemma checkSilence_arms_only_after_speech:
  assumes "silenceTimer (checkSilence r now audioLevel m) \<noteq> silenceTimer m"
    and "silenceTimer (checkSilence r now audioLevel m) \<noteq> None"
  shows "r_hasSpeechStarted r \<and> audioLevel < 5 / 100 \<and> lastAudioLevelRef m > 5 / 100 \<and>
         silenceTimer (checkSilence r now audioLevel m) = Some (now + autoStopSilence (r_props r), r)"
  using assms
  by (auto simp add: checkSilence_def Let_def clear_silence_timeout_def split: if_splits)

text \<open>
  Claim C3 does not hold of the code. In every run of a mounted component a tick of the
  interval leaves the recorder as it is: the \<open>stopRecording\<close> it calls reads
  \<open>isRecording = false\<close> and returns. With \<open>maxDuration = 2\<close>, after ticks at 1, 2 and
  3 seconds the recorder still records and \<open>recordingDuration\<close> is 3.
\<close>

theorem timer_does_not_stop_recording:
  "mediaRecorderRef (run props mounted (events @ [TimerTick now])) =
     mediaRecorderRef (run props mounted events) \<and>
   recordingDuration (run (default_props\<lparr>maxDuration := 2\<rparr>) mounted
     [ClickButton True 0 loud, TimerTick 1000, TimerTick 2000, TimerTick 3000]) = 3 \<and>
   isRecording (run (default_props\<lparr>maxDuration := 2\<rparr>) mounted
     [ClickButton True 0 loud, TimerTick 1000, TimerTick 2000, TimerTick 3000]) \<and>
   map_option recorder_state (mediaRecorderRef (run (default_props\<lparr>maxDuration := 2\<rparr>) mounted
     [ClickButton True 0 loud, TimerTick 1000, TimerTick 2000, TimerTick 3000])) = Some recording"
proof -
  have "stale (run props mounted events)"
    by (rule stale_run [OF stale_mounted])
  then have general: "mediaRecorderRef (run props mounted (events @ [TimerTick now])) =
     mediaRecorderRef (run props mounted events)"
    by (simp add: run_snoc stale_timer_tick_recorder)
  have started: "run (default_props\<lparr>maxDuration := 2\<rparr>) mounted [ClickButton True 0 loud] =
    mounted\<lparr>isRecording := True, micStreamRef := True, audioContextRef := True,
      analyserRef := True,
      mediaRecorderRef := Some \<lparr>recorder_state = recording, stop_task = False,
        onstop = render_of (default_props\<lparr>maxDuration := 2\<rparr>) mounted\<rparr>,
      timerIntervalRef := Some (0, render_of (default_props\<lparr>maxDuration := 2\<rparr>) mounted),
      called := [BeforeRecording, RecordingStart]\<rparr>"
    by (simp add: run_def startRecording_def visualizeAudio_def render_of_def mounted_def
        default_props_def Let_def)
  have ticks: "run (default_props\<lparr>maxDuration := 2\<rparr>) mounted
      [ClickButton True 0 loud, TimerTick 1000, TimerTick 2000, TimerTick 3000] =
    (run (default_props\<lparr>maxDuration := 2\<rparr>) mounted [ClickButton True 0 loud])
      \<lparr>recordingDuration := 3\<rparr>"
    unfolding run_after_first [of _ _ "ClickButton True 0 loud" "_ # _"] started
    by (simp add: run_def timer_tick_def stopRecording_def render_of_def mounted_def
        default_props_def Let_def)
  have concrete: "recordingDuration ((run (default_props\<lparr>maxDuration := 2\<rparr>) mounted
        [ClickButton True 0 loud])\<lparr>recordingDuration := 3\<rparr>) = 3 \<and>
      isRecording ((run (default_props\<lparr>maxDuration := 2\<rparr>) mounted
        [ClickButton True 0 loud])\<lparr>recordingDuration := 3\<rparr>) \<and>
      map_option recorder_state (mediaRecorderRef ((run (default_props\<lparr>maxDuration := 2\<rparr>)
        mounted [ClickButton True 0 loud])\<lparr>recordingDuration := 3\<rparr>)) = Some recording"
    by (simp add: started)
  show ?thesis
    unfolding ticks
    using general concrete by blast
qed

text \<open>
  Claim C2 does not hold of the code. In every run of a mounted component
  \<open>hasSpeechStarted\<close> stays false, no animation frame is ever requested, the level is
  never measured and no silence timeout is ever armed: \<open>visualizeAudio\<close> reads
  \<open>isRecording = false\<close> and returns before the first \<open>updateLevel\<close>. A recording with
  speech followed by three seconds of silence is still recording.
\<close>

theorem silence_is_never_detected:
  "\<not> hasSpeechStarted (run props mounted events) \<and>
   animationFrameRef (run props mounted events) = None \<and>
   silenceTimer (run props mounted events) = None \<and>
   recordingLevel (run props mounted events) = 0 \<and>
   isRecording (run default_props mounted
     [ClickButton True 0 loud, AnimationFrame 16 loud, AnimationFrame 32 silent,
      AnimationFrame 48 silent, SilenceTimeout 2032, SilenceTimeout 5000]) \<and>
   map_option recorder_state (mediaRecorderRef (run default_props mounted
     [ClickButton True 0 loud, AnimationFrame 16 loud, AnimationFrame 32 silent,
      AnimationFrame 48 silent, SilenceTimeout 2032, SilenceTimeout 5000])) = Some recording"
proof -
  have "stale (run props mounted events)"
    by (rule stale_run [OF stale_mounted])
  then have general: "\<not> hasSpeechStarted (run props mounted events) \<and>
     animationFrameRef (run props mounted events) = None \<and>
     silenceTimer (run props mounted events) = None \<and>
     recordingLevel (run props mounted events) = 0"
    by (simp add: stale_def)
  have started: "run default_props mounted [ClickButton True 0 loud] =
    mounted\<lparr>isRecording := True, micStreamRef := True, audioContextRef := True,
      analyserRef := True,
      mediaRecorderRef := Some \<lparr>recorder_state = recording, stop_task = False,
        onstop = render_of default_props mounted\<rparr>,
      timerIntervalRef := Some (0, render_of default_props mounted),
      called := [BeforeRecording, RecordingStart]\<rparr>"
    by (simp add: run_def startRecording_def visualizeAudio_def render_of_def mounted_def
        default_props_def Let_def)
  have frames: "run default_props mounted
     [ClickButton True 0 loud, AnimationFrame 16 loud, AnimationFrame 32 silent,
      AnimationFrame 48 silent, SilenceTimeout 2032, SilenceTimeout 5000] =
    run default_props mounted [ClickButton True 0 loud]"
    unfolding run_after_first [of _ _ "ClickButton True 0 loud" "_ # _"] started
    by (simp add: run_def silence_timeout_def mounted_def)
  have concrete: "isRecording (run default_props mounted [ClickButton True 0 loud]) \<and>
      map_option recorder_state (mediaRecorderRef (run default_props mounted
        [ClickButton True 0 loud])) = Some recording"
    by (simp add: started)
  show ?thesis
    unfolding frames
    using general concrete by blast
qed

text \<open>
  Claim C10. \<open>cancelRecording\<close> of the current render, on a component that is recording,
  stops the recorder; when the recorder's stop task runs, \<open>onRecordingComplete\<close> is
  called with the blob of the accumulated chunks, after \<open>onRecordingCancel\<close>. The
  component ends in the state a click on the stop button leads to, and the consumer
  receives the same blob; only the call of \<open>onRecordingCancel\<close> is added.
\<close>

theorem cancelRecording_still_completes:
  assumes "isRecording m" and "mediaRecorderRef m = Some rec"
    and "recorder_state rec = recording"
    and "onRecordingComplete (r_props (onstop rec))" and "onRecordingCancel props"
  shows "called (recorder_stopped data (cancelRecording (render_of props m) m)) =
           called m @ [RecordingCancel, RecordingComplete (concat (audioChunksRef m @ [data]))] \<and>
         called (recorder_stopped data (stopRecording (render_of props m) m)) =
           called m @ [RecordingComplete (concat (audioChunksRef m @ [data]))] \<and>
         map_option recorder_state (mediaRecorderRef (cancelRecording (render_of props m) m)) =
           Some inactive \<and>
         recorder_stopped data (cancelRecording (render_of props m) m) =
           (recorder_stopped data (stopRecording (render_of props m) m))
             \<lparr>called := called m @
                [RecordingCancel, RecordingComplete (concat (audioChunksRef m @ [data]))]\<rparr>"
  using assms
  by (simp add: cancelRecording_def stopRecording_def MediaRecorder_stop_def render_of_def
      recorder_stopped_def Let_def)

text \<open>
  Start, cancel, and the stop task with three bytes of audio.
\<close>

theorem cancelRecording_still_completes_witness:
  "called (run default_props mounted
      [ClickButton True 0 loud, ClickCancel, RecorderStopped [1, 2, 3]]) =
     [BeforeRecording, RecordingStart, RecordingCancel, RecordingComplete [1, 2, 3]]"
proof -
  let ?m = "run default_props mounted [ClickButton True 0 loud]"
  let ?rec = "\<lparr>recorder_state = recording, stop_task = False,
        onstop = render_of default_props mounted\<rparr>"
  have started: "?m =
    mounted\<lparr>isRecording := True, micStreamRef := True, audioContextRef := True,
      analyserRef := True, mediaRecorderRef := Some ?rec,
      timerIntervalRef := Some (0, render_of default_props mounted),
      called := [BeforeRecording, RecordingStart]\<rparr>"
    by (simp add: run_def startRecording_def visualizeAudio_def render_of_def mounted_def
        default_props_def Let_def)
  have h1: "isRecording ?m" by (simp add: started)
  have h2: "mediaRecorderRef ?m = Some ?rec" by (simp add: started)
  have h3: "recorder_state ?rec = recording" by simp
  have h4: "onRecordingComplete (r_props (onstop ?rec))"
    by (simp add: render_of_def default_props_def)
  have h5: "onRecordingCancel default_props" by (simp add: default_props_def)
  have steps: "run default_props mounted
      [ClickButton True 0 loud, ClickCancel, RecorderStopped [1, 2, 3]] =
    recorder_stopped [1, 2, 3] (cancelRecording (render_of default_props ?m) ?m)"
    unfolding run_after_first [of _ _ "ClickButton True 0 loud" "_ # _"]
    using h1 by (simp add: run_def)
  have before: "called ?m = [BeforeRecording, RecordingStart]" "audioChunksRef ?m = []"
    unfolding started by (simp_all add: mounted_def)
  from cancelRecording_still_completes [OF h1 h2 h3 h4 h5, of "[1, 2, 3]"]
  have "called (recorder_stopped [1, 2, 3] (cancelRecording (render_of default_props ?m) ?m)) =
          called ?m @ [RecordingCancel, RecordingComplete (concat (audioChunksRef ?m @ [[1, 2, 3]]))]"
    by (rule conjunct1)
  then show ?thesis
    unfolding steps before by simp
qed

end
